theory Spec2Isabelle
  imports Complex_Main "HOL-Library.Log_Nat"
begin

section \<open>The Sentinel-2 viewer script: band extraction, normalization and export\<close>

text \<open>
  The program is one Python script, \<^verbatim>\<open>streamlit_app.py\<close>. Its own logic is the function
  \<^verbatim>\<open>read_band\<close> (bounding box to pixel window, one windowed read per band, stacking),
  the function \<^verbatim>\<open>normalize\<close>, the expression that builds \<^verbatim>\<open>img_rgb\<close> and the loop that
  writes the GeoTIFF. Everything else is a call into a library (rasterio, numpy,
  planetary_computer). The library calls whose results the script only passes on are
  fields of the records below: what an opened raster answers, what signing and opening
  an asset reference give. Python exceptions are values of the type \<open>error\<close>.
\<close>

subsection \<open>Errors\<close>

datatype error =
    KeyError string         \<comment> \<open>a dict lookup on a missing key: \<^verbatim>\<open>item.assets[band]\<close>\<close>
  | ValueError string       \<comment> \<open>numpy and rasterio argument errors\<close>
  | IndexError string       \<comment> \<open>an index outside a shape, a band number outside the file\<close>
  | WindowError string      \<comment> \<open>raised by \<^verbatim>\<open>Window.from_slices\<close>\<close>
  | RasterioIOError string  \<comment> \<open>raised inside \<^verbatim>\<open>rasterio.open\<close> or a read\<close>
  | SignError string        \<comment> \<open>raised inside \<^verbatim>\<open>planetary_computer.sign\<close>\<close>

subsection \<open>numpy arrays\<close>

text \<open>
  An array is its shape and its elements, the element of a multi-index being \<open>elem a idx\<close>.
  The element type stands for the dtype. Only the elements at indices inside the shape
  are part of the array (\<open>array_equal\<close> below compares exactly those).
\<close>

record 'a ndarray =
  shape :: "nat list"
  elem :: "nat list \<Rightarrow> 'a"

text \<open>\<^verbatim>\<open>np.ndindex(*shape)\<close>: every index inside the shape, in row-major order.\<close>

fun ndindex :: "nat list \<Rightarrow> nat list list" where
  "ndindex [] = [[]]"
| "ndindex (n # ns) = concat (map (\<lambda>i. map (\<lambda>idx. i # idx) (ndindex ns)) [0..<n])"

text \<open>\<^verbatim>\<open>np.array_equal(a, b)\<close>: the same shape and the same element at every index.\<close>

definition array_equal :: "'a ndarray \<Rightarrow> 'a ndarray \<Rightarrow> bool" where
  "array_equal a b =
     (shape a = shape b \<and> list_all (\<lambda>idx. elem a idx = elem b idx) (ndindex (shape a)))"

text \<open>
  \<^verbatim>\<open>np.stack(arrs, axis=-1)\<close>: an empty list and arrays of different shapes are a
  ValueError; otherwise the result has one more, trailing axis, whose index selects the
  array.
\<close>

definition np_stack :: "'a ndarray list \<Rightarrow> error + 'a ndarray" where
  "np_stack arrs =
     (case arrs of
        [] \<Rightarrow> Inl (ValueError ''need at least one array to stack'')
      | a # rest \<Rightarrow>
          if list_all (\<lambda>b. shape b = shape a) rest
          then Inr \<lparr>shape = shape a @ [length arrs],
                    elem = (\<lambda>idx. elem (arrs ! last idx) (butlast idx))\<rparr>
          else Inl (ValueError ''all input arrays must have the same shape''))"

text \<open>
  \<^verbatim>\<open>a[..., i]\<close> for a non-negative \<open>i\<close>: the last axis is indexed away. \<open>plane_of a i\<close> is
  the array it gives when \<open>i\<close> is inside the last axis.
\<close>

definition plane_of :: "'a ndarray \<Rightarrow> nat \<Rightarrow> 'a ndarray" where
  "plane_of a i = \<lparr>shape = butlast (shape a), elem = (\<lambda>idx. elem a (idx @ [i]))\<rparr>"

definition last_axis_item :: "'a ndarray \<Rightarrow> nat \<Rightarrow> error + 'a ndarray" where
  "last_axis_item a i =
     (if shape a = [] then Inl (IndexError ''too many indices for array'')
      else if last (shape a) \<le> i then Inl (IndexError ''index is out of bounds for the axis'')
      else Inr (plane_of a i))"

text \<open>\<^verbatim>\<open>a[..., :n]\<close>: the last axis is cut to its first \<open>n\<close> entries; a slice never raises.\<close>

definition last_axis_take :: "'a ndarray \<Rightarrow> nat \<Rightarrow> error + 'a ndarray" where
  "last_axis_take a n =
     (if shape a = [] then Inl (IndexError ''too many indices for array'')
      else Inr \<lparr>shape = butlast (shape a) @ [min n (last (shape a))], elem = elem a\<rparr>)"

subsection \<open>Rasters, assets and the selected scene\<close>

text \<open>
  \<^verbatim>\<open>rasterio.windows.Window\<close>, and \<^verbatim>\<open>Window.from_slices(rows, cols)\<close> on two (start, stop)
  pairs, called as the script calls it, without a height, a width or \<^verbatim>\<open>boundless\<close>: a
  negative start or stop is a WindowError (it would count from the far edge, and no size
  is given); otherwise the offsets are the starts and the lengths are stop minus start,
  or 0 where that is negative.
\<close>

record window =
  col_off :: int
  row_off :: int
  width :: int
  height :: int

definition from_slices :: "int \<times> int \<Rightarrow> int \<times> int \<Rightarrow> error + window" where
  "from_slices rows cols =
     (if fst rows < 0 \<or> snd rows < 0
      then Inl (WindowError ''height is required when providing negative indexes'')
      else if fst cols < 0 \<or> snd cols < 0
      then Inl (WindowError ''width is required when providing negative indexes'')
      else Inr \<lparr>col_off = fst cols, row_off = fst rows,
                width = max (snd cols - fst cols) 0, height = max (snd rows - fst rows) 0\<rparr>)"

text \<open>
  An opened raster (\<^verbatim>\<open>rasterio.open(href)\<close>), by the three things the script asks of it:
  \<^verbatim>\<open>src.index(x, y)\<close>, the (row, col) of a coordinate pair, \<^verbatim>\<open>src.transform\<close>, and
  \<^verbatim>\<open>src.read(band, window=w, out_shape=s)\<close>. The transform's type is left open. The
  raster's size in pixels, \<^verbatim>\<open>src.height\<close> and \<^verbatim>\<open>src.width\<close>, is what it covers: the script
  never asks for it.
\<close>

record ('a, 'g) dataset =
  index :: "real \<Rightarrow> real \<Rightarrow> int \<times> int"
  transform :: 'g
  read :: "nat \<Rightarrow> window \<Rightarrow> nat \<times> nat \<Rightarrow> error + 'a ndarray"
  raster_height :: nat
  raster_width :: nat

text \<open>The two remote calls: signing an asset reference and opening a signed one.\<close>

record ('a, 'g) remote =
  sign :: "string \<Rightarrow> error + string"
  rasterio_open :: "string \<Rightarrow> error + ('a, 'g) dataset"

text \<open>The selected scene, the script's global \<^verbatim>\<open>item\<close>: a dict from band name to asset.\<close>

record asset =
  href :: string

record item =
  assets :: "string \<rightharpoonup> asset"

type_synonym bbox = "real \<times> real \<times> real \<times> real"

subsection \<open>The script\<close>

text \<open>Line 23: \<^verbatim>\<open>bbox = [lon-buffer, lat-buffer, lon+buffer, lat+buffer]\<close>.\<close>

definition make_bbox :: "real \<Rightarrow> real \<Rightarrow> real \<Rightarrow> bbox" where
  "make_bbox lat lon buffer = (lon - buffer, lat - buffer, lon + buffer, lat + buffer)"

text \<open>
  Lines 61 to 64 of \<^verbatim>\<open>read_band\<close>: the two corners (left, top) and (right, bottom) are
  converted to (row, col) and the window is built from the smaller and the larger row and
  the smaller and the larger column.
\<close>

definition pixel_window :: "('a, 'g) dataset \<Rightarrow> bbox \<Rightarrow> error + window" where
  "pixel_window src bb =
     (case bb of (left, bottom, right, top') \<Rightarrow>
        (case index src left top' of (row_start, col_start) \<Rightarrow>
        (case index src right bottom of (row_stop, col_stop) \<Rightarrow>
           from_slices (min row_start row_stop, max row_start row_stop)
                       (min col_start col_stop, max col_start col_stop))))"



text \<open>
  Lines 68 to 70, the body of the loop over \<^verbatim>\<open>bands\<close>: the band's asset is looked up in
  the global \<^verbatim>\<open>item\<close>, its href is signed and opened, and band 1 is read through the
  window into a 256 by 256 array.
\<close>

definition band_arr ::
  "('a, 'g) remote \<Rightarrow> item \<Rightarrow> window \<Rightarrow> string \<Rightarrow> error + 'a ndarray" where
  "band_arr env item w band =
     (case assets item band of
        None \<Rightarrow> Inl (KeyError band)
      | Some a \<Rightarrow>
          (case sign env (href a) of
             Inl e \<Rightarrow> Inl e
           | Inr asset_band_href \<Rightarrow>
               (case rasterio_open env asset_band_href of
                  Inl e \<Rightarrow> Inl e
                | Inr bsrc \<Rightarrow> read bsrc 1 w (256, 256))))"

text \<open>
  Lines 65 to 71, the loop: \<^verbatim>\<open>arrs\<close> starts empty and gets one array appended per band;
  the first exception ends the loop and the function.
\<close>

fun read_bands ::
  "('a, 'g) remote \<Rightarrow> item \<Rightarrow> window \<Rightarrow> string list \<Rightarrow> 'a ndarray list
     \<Rightarrow> error + 'a ndarray list" where
  "read_bands env item w [] arrs = Inr arrs"
| "read_bands env item w (band # bands) arrs =
     (case band_arr env item w band of
        Inl e \<Rightarrow> Inl e
      | Inr arr \<Rightarrow> read_bands env item w bands (arrs @ [arr]))"

text \<open>
  Lines 57 to 73, \<^verbatim>\<open>read_band(asset_href, bbox, bands)\<close>. The global \<^verbatim>\<open>item\<close> it reads is
  a parameter here.
\<close>

definition read_band ::
  "('a, 'g) remote \<Rightarrow> item \<Rightarrow> string \<Rightarrow> bbox \<Rightarrow> string list
     \<Rightarrow> error + 'a ndarray \<times> 'g" where
  "read_band env item asset_href bb bands =
     (case sign env asset_href of
        Inl e \<Rightarrow> Inl e
      | Inr signed_href \<Rightarrow>
          (case rasterio_open env signed_href of
             Inl e \<Rightarrow> Inl e
           | Inr src \<Rightarrow>
               (case pixel_window src bb of
                  Inl e \<Rightarrow> Inl e
                | Inr window \<Rightarrow>
                    (case read_bands env item window bands [] of
                       Inl e \<Rightarrow> Inl e
                     | Inr arrs \<Rightarrow>
                         (case np_stack arrs of
                            Inl e \<Rightarrow> Inl e
                          | Inr stacked \<Rightarrow> Inr (stacked, transform src))))))"

text \<open>Line 76: \<^verbatim>\<open>preview, transform = read_band(item.assets["B04"].href, bbox, bands)\<close>.\<close>

definition load_preview ::
  "('a, 'g) remote \<Rightarrow> item \<Rightarrow> bbox \<Rightarrow> string list \<Rightarrow> error + 'a ndarray \<times> 'g" where
  "load_preview env item bb bands =
     (case assets item ''B04'' of
        None \<Rightarrow> Inl (KeyError ''B04'')
      | Some a \<Rightarrow> read_band env item (href a) bb bands)"

subsection \<open>Display normalization\<close>

text \<open>
  The elements of a numeric array. An integer and a finite float are the real number they
  denote; a float can also be infinite or not a number. An array of an integer dtype holds
  \<open>Finite\<close> integers only.
\<close>

datatype number = Finite real | PosInf | NegInf | NaN

instantiation number :: zero
begin

definition zero_number :: number where
  "zero_number = Finite 0"

instance ..

end

text \<open>The comparison \<^verbatim>\<open>a <= b\<close> of two numbers: false as soon as one of them is NaN.\<close>

fun number_le :: "number \<Rightarrow> number \<Rightarrow> bool" where
  "number_le (Finite x) (Finite y) = (x \<le> y)"
| "number_le NaN b = False"
| "number_le a NaN = False"
| "number_le NegInf b = True"
| "number_le a PosInf = True"
| "number_le a b = False"

text \<open>
  Rounding to float32. \<open>float32_nearest x\<close> is the multiple of the unit in the last place
  that is nearest to \<open>x\<close>, ties to the even significand: \<open>x\<close> is scaled by a power of two
  into the range of a 24 bit significand, rounded to an integer and scaled back. The
  exponent is not taken below -126, so the numbers under \<open>2 ^ -126\<close> are rounded to the
  subnormal numbers, the multiples of \<open>2 ^ -149\<close>. \<open>float32 x\<close> is the float32 that a
  cast or an operation with the exact result \<open>x\<close> gives: infinite when the rounded
  magnitude reaches \<open>2 ^ 128\<close>. The sign of a zero is not kept.
\<close>

definition round_half_even :: "real \<Rightarrow> int" where
  "round_half_even r =
     (let f = \<lfloor>r\<rfloor>; d = r - of_int f
      in if d < 1 / 2 then f else if 1 / 2 < d then f + 1 else if even f then f else f + 1)"

text \<open>For \<open>0 < x\<close>, the \<open>e\<close> with \<open>2 ^ e \<le> x < 2 ^ (e + 1)\<close>.\<close>

definition float32_exponent :: "real \<Rightarrow> int" where
  "float32_exponent x =
     (if 1 \<le> x then bitlen \<lfloor>x\<rfloor> - 1 else - bitlen (\<lceil>1 / x\<rceil> - 1))"

definition float32_pos :: "real \<Rightarrow> real" where
  "float32_pos x =
     (let u = 2 powi (max (float32_exponent x) (- 126) - 23)
      in of_int (round_half_even (x / u)) * u)"

definition float32_nearest :: "real \<Rightarrow> real" where
  "float32_nearest x =
     (if x = 0 then 0 else if 0 < x then float32_pos x else - float32_pos (- x))"

definition float32 :: "real \<Rightarrow> number" where
  "float32 x =
     (let m = float32_nearest x
      in if 2 ^ 128 \<le> m then PosInf else if m \<le> - (2 ^ 128) then NegInf else Finite m)"

text \<open>
  \<^verbatim>\<open>arr.astype(np.float32)\<close>, element by element: a finite value is rounded, an infinity
  and NaN stay what they are.
\<close>

definition to_float32 :: "number \<Rightarrow> number" where
  "to_float32 v =
     (case v of Finite x \<Rightarrow> float32 x | PosInf \<Rightarrow> PosInf | NegInf \<Rightarrow> NegInf | NaN \<Rightarrow> NaN)"

definition astype_float32 :: "number ndarray \<Rightarrow> number ndarray" where
  "astype_float32 arr = \<lparr>shape = shape arr, elem = (\<lambda>idx. to_float32 (elem arr idx))\<rparr>"

text \<open>
  \<^verbatim>\<open>np.clip(arr, lo, hi)\<close> on a float32 array, for two bounds that float32 holds exactly:
  the minimum with \<open>hi\<close> of the maximum with \<open>lo\<close>, and NaN where the element is NaN.
\<close>

definition clip :: "number \<Rightarrow> real \<Rightarrow> real \<Rightarrow> number" where
  "clip v lo hi =
     (case v of
        Finite x \<Rightarrow> Finite (min (max x lo) hi)
      | PosInf \<Rightarrow> Finite hi
      | NegInf \<Rightarrow> Finite (min lo hi)
      | NaN \<Rightarrow> NaN)"

definition np_clip :: "number ndarray \<Rightarrow> real \<Rightarrow> real \<Rightarrow> number ndarray" where
  "np_clip arr lo hi = \<lparr>shape = shape arr, elem = (\<lambda>idx. clip (elem arr idx) lo hi)\<rparr>"

text \<open>
  \<^verbatim>\<open>arr / d\<close> on a float32 array and a Python number that float32 holds exactly: a float32
  array, each quotient rounded. Dividing by zero gives an infinity, or NaN for 0 / 0, and
  raises nothing.
\<close>

definition true_divide :: "number \<Rightarrow> real \<Rightarrow> number" where
  "true_divide v d =
     (case v of
        Finite x \<Rightarrow>
          if d = 0 then (if x = 0 then NaN else if 0 < x then PosInf else NegInf)
          else float32 (x / d)
      | PosInf \<Rightarrow> if d < 0 then NegInf else PosInf
      | NegInf \<Rightarrow> if d < 0 then PosInf else NegInf
      | NaN \<Rightarrow> NaN)"

definition np_divide :: "number ndarray \<Rightarrow> real \<Rightarrow> number ndarray" where
  "np_divide arr d = \<lparr>shape = shape arr, elem = (\<lambda>idx. true_divide (elem arr idx) d)\<rparr>"

text \<open>Lines 79 to 82, \<^verbatim>\<open>normalize(arr)\<close>.\<close>

definition normalize :: "number ndarray \<Rightarrow> number ndarray" where
  "normalize arr = np_divide (np_clip (astype_float32 arr) 0 3000) 3000"

text \<open>
  Line 84: \<^verbatim>\<open>normalize(preview[..., :3]) if preview.shape[-1] >= 3 else
  normalize(preview[..., 0])\<close>.
\<close>

definition img_rgb :: "number ndarray \<Rightarrow> error + number ndarray" where
  "img_rgb preview =
     (if shape preview = [] then Inl (IndexError ''tuple index out of range'')
      else if 3 \<le> last (shape preview)
      then (case last_axis_take preview 3 of
              Inl e \<Rightarrow> Inl e
            | Inr rgb \<Rightarrow> Inr (normalize rgb))
      else (case last_axis_item preview 0 of
              Inl e \<Rightarrow> Inl e
            | Inr first \<Rightarrow> Inr (normalize first)))"

subsection \<open>GeoTIFF export\<close>

text \<open>
  The file opened for writing at lines 97 to 106, by what the script gives it and what
  reading it back returns: the driver, the size, the band count, the coordinate reference
  system, the transform and one pixel plane per band. The dtype is the element type. A
  new file holds zeros. A size or a band count of zero is refused when the file is
  created.
\<close>

record ('a, 'g) geotiff =
  dst_driver :: string
  dst_height :: nat
  dst_width :: nat
  dst_count :: nat
  dst_crs :: string
  dst_transform :: 'g
  dst_bands :: "'a ndarray list"

definition rasterio_open_w ::
  "string \<Rightarrow> nat \<Rightarrow> nat \<Rightarrow> nat \<Rightarrow> string \<Rightarrow> 'g \<Rightarrow> error + ('a::zero, 'g) geotiff" where
  "rasterio_open_w drv h w n c t =
     (if h = 0 \<or> w = 0 \<or> n = 0
      then Inl (RasterioIOError ''sizes and band count must be larger than zero'')
      else Inr \<lparr>dst_driver = drv, dst_height = h, dst_width = w, dst_count = n,
                dst_crs = c, dst_transform = t,
                dst_bands = replicate n \<lparr>shape = [h, w], elem = (\<lambda>idx. 0)\<rparr>\<rparr>)"

text \<open>
  \<^verbatim>\<open>dst.write(arr, i)\<close> with a band number: bands are numbered from 1 and the array is
  one plane. The script only writes planes of the file's own size; a plane of another
  size, which the library would resample, is not modelled and is an error here.
\<close>

definition dst_write ::
  "('a, 'g) geotiff \<Rightarrow> 'a ndarray \<Rightarrow> nat \<Rightarrow> error + ('a, 'g) geotiff" where
  "dst_write dst arr i =
     (if i < 1 \<or> dst_count dst < i then Inl (IndexError ''band index out of range'')
      else if length (shape arr) \<noteq> 2
      then Inl (ValueError ''source shape is inconsistent with the given indexes'')
      else if shape arr \<noteq> [dst_height dst, dst_width dst]
      then Inl (ValueError ''resampling on write is not modelled'')
      else Inr (dst\<lparr>dst_bands := (dst_bands dst)[i - 1 := arr]\<rparr>))"

text \<open>\<^verbatim>\<open>preview.shape[k]\<close>.\<close>

definition shape_at :: "'a ndarray \<Rightarrow> nat \<Rightarrow> error + nat" where
  "shape_at a k =
     (if k < length (shape a) then Inr (shape a ! k)
      else Inl (IndexError ''tuple index out of range''))"

text \<open>Lines 107 and 108: \<^verbatim>\<open>for i in range(...): dst.write(preview[..., i], i+1)\<close>.\<close>

fun write_bands ::
  "'a ndarray \<Rightarrow> nat list \<Rightarrow> ('a, 'g) geotiff \<Rightarrow> error + ('a, 'g) geotiff" where
  "write_bands preview [] dst = Inr dst"
| "write_bands preview (i # rest) dst =
     (case last_axis_item preview i of
        Inl e \<Rightarrow> Inl e
      | Inr plane \<Rightarrow>
          (case dst_write dst plane (i + 1) of
             Inl e \<Rightarrow> Inl e
           | Inr dst' \<Rightarrow> write_bands preview rest dst'))"

text \<open>Lines 97 to 108: the file is created from the preview's shape and filled.\<close>

definition export_geotiff ::
  "'a::zero ndarray \<Rightarrow> 'g \<Rightarrow> error + ('a, 'g) geotiff" where
  "export_geotiff preview t =
     (case shape_at preview 0 of
        Inl e \<Rightarrow> Inl e
      | Inr h \<Rightarrow>
     (case shape_at preview 1 of
        Inl e \<Rightarrow> Inl e
      | Inr w \<Rightarrow>
     (case shape_at preview 2 of
        Inl e \<Rightarrow> Inl e
      | Inr n \<Rightarrow>
     (case rasterio_open_w ''GTiff'' h w n ''EPSG:4326'' t of
        Inl e \<Rightarrow> Inl e
      | Inr dst \<Rightarrow>
     (case shape_at preview 2 of
        Inl e \<Rightarrow> Inl e
      | Inr m \<Rightarrow> write_bands preview [0..<m] dst)))))"

text \<open>
  Not a step of the script: what opening the written file again and reading it gives, its
  bands in order, stacked along a trailing axis as \<^verbatim>\<open>read_band\<close> stacks them, and its
  transform.
\<close>

definition reopen :: "('a, 'g) geotiff \<Rightarrow> error + 'a ndarray \<times> 'g" where
  "reopen dst =
     (case np_stack (dst_bands dst) of
        Inl e \<Rightarrow> Inl e
      | Inr stacked \<Rightarrow> Inr (stacked, dst_transform dst))"

text \<open>
  Lines 76 to 108, the script from the preview on: the bands are loaded, the image is
  built, and when the download button was pressed the GeoTIFF is written. An exception
  ends the run: nothing after it is shown or written. The calls that only display
  (the image, the map, the download button) are left out.
\<close>

definition app ::
  "(number, 'g) remote \<Rightarrow> item \<Rightarrow> bbox \<Rightarrow> string list \<Rightarrow> bool
     \<Rightarrow> error + number ndarray \<times> (number, 'g) geotiff option" where
  "app env item bb bands button =
     (case load_preview env item bb bands of
        Inl e \<Rightarrow> Inl e
      | Inr (preview, t) \<Rightarrow>
          (case img_rgb preview of
             Inl e \<Rightarrow> Inl e
           | Inr img \<Rightarrow>
               if button
               then (case export_geotiff preview t of
                       Inl e \<Rightarrow> Inl e
                     | Inr dst \<Rightarrow> Inr (img, Some dst))
               else Inr (img, None)))"

subsection \<open>Example inputs\<close>

text \<open>
  A north-up raster in degrees, of 1 degree pixels, 120 rows by 180 columns, whose upper
  left corner is at longitude 0 and latitude 60: the column is the floor of x, the row
  the floor of 60 - y. A read through a window that starts below the last row or right of
  the last column fails; every pixel of any other read is \<open>v\<close>.
\<close>

definition example_raster ::
  "'a \<Rightarrow> ('a, real \<times> real \<times> real \<times> real \<times> real \<times> real) dataset" where
  "example_raster v =
     \<lparr>index = (\<lambda>x y. (\<lfloor>60 - y\<rfloor>, \<lfloor>x\<rfloor>)),
      transform = (1, 0, 0, 0, - 1, 60),
      read = (\<lambda>band w out_shape.
                if 120 \<le> row_off w \<or> 180 \<le> col_off w
                then Inl (RasterioIOError ''Read or write failed'')
                else Inr \<lparr>shape = [fst out_shape, snd out_shape], elem = (\<lambda>idx. v)\<rparr>),
      raster_height = 120,
      raster_width = 180\<rparr>"

text \<open>The example raster with pixels of an integer dtype.\<close>

abbreviation example_tile ::
  "int \<Rightarrow> (int, real \<times> real \<times> real \<times> real \<times> real \<times> real) dataset" where
  "example_tile \<equiv> example_raster"

text \<open>
  Signing appends a token; the signed references of four band files open, each as a tile
  whose pixels are the band number, and nothing else opens.
\<close>

definition example_remote :: "(int, real \<times> real \<times> real \<times> real \<times> real \<times> real) remote" where
  "example_remote =
     \<lparr>sign = (\<lambda>h. Inr (h @ ''?sig'')),
      rasterio_open = (\<lambda>h.
        if h = ''B02.tif?sig'' then Inr (example_tile 2)
        else if h = ''B03.tif?sig'' then Inr (example_tile 3)
        else if h = ''B04.tif?sig'' then Inr (example_tile 4)
        else if h = ''B08.tif?sig'' then Inr (example_tile 8)
        else Inl (RasterioIOError h))\<rparr>"

text \<open>The same scene with its pixels as numbers, as \<^verbatim>\<open>normalize\<close> takes them.\<close>

definition example_numeric_remote ::
  "(number, real \<times> real \<times> real \<times> real \<times> real \<times> real) remote" where
  "example_numeric_remote =
     \<lparr>sign = (\<lambda>h. Inr (h @ ''?sig'')),
      rasterio_open = (\<lambda>h.
        if h = ''B02.tif?sig'' then Inr (example_raster (Finite 2))
        else if h = ''B03.tif?sig'' then Inr (example_raster (Finite 3))
        else if h = ''B04.tif?sig'' then Inr (example_raster (Finite 4))
        else if h = ''B08.tif?sig'' then Inr (example_raster (Finite 8))
        else Inl (RasterioIOError h))\<rparr>"

definition example_item :: item where
  "example_item =
     \<lparr>assets = [''B02'' \<mapsto> \<lparr>href = ''B02.tif''\<rparr>, ''B03'' \<mapsto> \<lparr>href = ''B03.tif''\<rparr>,
                 ''B04'' \<mapsto> \<lparr>href = ''B04.tif''\<rparr>, ''B08'' \<mapsto> \<lparr>href = ''B08.tif''\<rparr>]\<rparr>"

text \<open>The script's default inputs: latitude 48.8584, longitude 2.2945, buffer 0.02.\<close>

definition example_bbox :: bbox where
  "example_bbox = make_bbox (488584 / 10000) (22945 / 10000) (2 / 100)"



text \<open>
  Six pixels: negative, zero, half of 3000, far above 3000 and the two infinities; and
  an array with a NaN.
\<close>

definition example_pixels :: "number ndarray" where
  "example_pixels =
     \<lparr>shape = [6],
      elem = (\<lambda>idx. [Finite (- 5), Finite 0, Finite 1500, Finite 70000, PosInf, NegInf] ! hd idx)\<rparr>"

definition example_nan :: "number ndarray" where
  "example_nan = \<lparr>shape = [2], elem = (\<lambda>idx. [NaN, Finite 1500] ! hd idx)\<rparr>"

text \<open>A stack of one row, two columns and two bands.\<close>

definition example_stack :: "int ndarray" where
  "example_stack = \<lparr>shape = [1, 2, 2], elem = (\<lambda>idx. int (10 * (idx ! 1) + idx ! 2))\<rparr>"

section \<open>Lemmas\<close>

subsection \<open>The loop over the bands\<close>

text \<open>
  The loop returns a list exactly when every band's read succeeded, and then it is the
  starting list followed by the bands' arrays in the order of \<^verbatim>\<open>bands\<close>.
\<close>

lemma read_bands_Inr_iff:
  "read_bands env item w bands acc = Inr arrs \<longleftrightarrow>
     (\<exists>new. arrs = acc @ new \<and>
        list_all2 (\<lambda>band arr. band_arr env item w band = Inr arr) bands new)"
proof (induction bands arbitrary: acc)
  case Nil
  then show ?case by auto
next
  case (Cons band bands)
  show ?case
  proof (cases "band_arr env item w band")
    case (Inl e)
    then show ?thesis by (auto simp: list_all2_Cons1)
  next
    case (Inr arr)
    then show ?thesis by (auto simp: Cons.IH list_all2_Cons1)
  qed
qed

lemma read_bands_first_failure:
  assumes "list_all2 (\<lambda>band arr. band_arr env item w band = Inr arr) pre new"
    and "band_arr env item w band = Inl e"
  shows "read_bands env item w (pre @ band # post) acc = Inl e"
  using assms
proof (induction pre arbitrary: acc new)
  case Nil
  then show ?case by simp
next
  case (Cons p pre)
  then show ?case by (auto simp: list_all2_Cons1)
qed

lemma np_stack_Inr_iff:
  "np_stack arrs = Inr st \<longleftrightarrow>
     arrs \<noteq> [] \<and> list_all (\<lambda>b. shape b = shape (hd arrs)) arrs \<and>
     st = \<lparr>shape = shape (hd arrs) @ [length arrs],
           elem = (\<lambda>idx. elem (arrs ! last idx) (butlast idx))\<rparr>"
  by (cases arrs) (auto simp: np_stack_def)

lemma last_axis_item_np_stack:
  assumes "np_stack arrs = Inr st" and "k < length arrs"
  shows "last_axis_item st k = Inr (arrs ! k)"
proof -
  from assms(1) have ne: "arrs \<noteq> []"
    and sh: "list_all (\<lambda>b. shape b = shape (hd arrs)) arrs"
    and st: "st = \<lparr>shape = shape (hd arrs) @ [length arrs],
           elem = (\<lambda>idx. elem (arrs ! last idx) (butlast idx))\<rparr>"
    by (simp_all add: np_stack_Inr_iff)
  from sh assms(2) have "shape (arrs ! k) = shape (hd arrs)"
    by (simp add: list_all_length)
  then have "\<lparr>shape = shape (hd arrs), elem = elem (arrs ! k)\<rparr> = arrs ! k"
    by simp
  with assms(2) show ?thesis
    by (simp add: last_axis_item_def plane_of_def st)
qed

subsection \<open>Rounding to float32\<close>

text \<open>
  \<open>float32_nearest\<close> is monotone, fixes 0, 1 and 3000, and is exact on the integers up
  to \<open>2 ^ 24\<close>; these are the facts the properties of \<^verbatim>\<open>normalize\<close> rest on.
\<close>

lemma round_half_even_bounds:
  "of_int (round_half_even r) \<le> r + 1 / 2 \<and> r - 1 / 2 \<le> of_int (round_half_even r)"
  unfolding round_half_even_def Let_def by (auto; linarith)

lemma round_half_even_of_int [simp]: "round_half_even (of_int n) = n"
  by (simp add: round_half_even_def)

lemma round_half_even_mono:
  assumes "r \<le> s" shows "round_half_even r \<le> round_half_even s"
proof (cases "\<lfloor>r\<rfloor> = \<lfloor>s\<rfloor>")
  case True
  with assms show ?thesis
    by (auto simp: round_half_even_def Let_def)
next
  case False
  with assms have "\<lfloor>r\<rfloor> + 1 \<le> \<lfloor>s\<rfloor>"
    using floor_mono[OF assms] by linarith
  moreover have "round_half_even r \<le> \<lfloor>r\<rfloor> + 1"
    by (auto simp: round_half_even_def Let_def)
  moreover have "\<lfloor>s\<rfloor> \<le> round_half_even s"
    by (auto simp: round_half_even_def Let_def)
  ultimately show ?thesis by linarith
qed

lemma float32_exponent_bounds:
  assumes "0 < x"
  shows "2 powi float32_exponent x \<le> x" and "x < 2 powi (float32_exponent x + 1)"
proof -
  have "2 powi float32_exponent x \<le> x \<and> x < 2 powi (float32_exponent x + 1)"
  proof (cases "1 \<le> x")
    case True
    then have pos: "0 < \<lfloor>x\<rfloor>" by linarith
    from bitlen_bounds[OF pos]
    have lo: "2 ^ nat (bitlen \<lfloor>x\<rfloor> - 1) \<le> \<lfloor>x\<rfloor>" and hi: "\<lfloor>x\<rfloor> < 2 ^ nat (bitlen \<lfloor>x\<rfloor>)"
      by simp_all
    have b1: "1 \<le> bitlen \<lfloor>x\<rfloor>"
      using pos bitlen_eq_zero_iff[of "\<lfloor>x\<rfloor>"] bitlen_nonneg[of "\<lfloor>x\<rfloor>"] by linarith
    have e: "float32_exponent x = bitlen \<lfloor>x\<rfloor> - 1"
      using True by (simp add: float32_exponent_def)
    have "(2::real) powi (bitlen \<lfloor>x\<rfloor> - 1) = 2 ^ nat (bitlen \<lfloor>x\<rfloor> - 1)"
      using b1 by (simp add: power_int_def)
    also have "\<dots> = of_int (2 ^ nat (bitlen \<lfloor>x\<rfloor> - 1))" by simp
    also have "\<dots> \<le> of_int \<lfloor>x\<rfloor>" using lo by (simp only: of_int_le_iff)
    also have "\<dots> \<le> x" by simp
    finally have A: "2 powi float32_exponent x \<le> x" by (simp add: e)
    have "\<lfloor>x\<rfloor> + 1 \<le> 2 ^ nat (bitlen \<lfloor>x\<rfloor>)" using hi by linarith
    then have "of_int (\<lfloor>x\<rfloor> + 1) \<le> (of_int (2 ^ nat (bitlen \<lfloor>x\<rfloor>)) :: real)"
      by (simp only: of_int_le_iff)
    moreover have "x < of_int (\<lfloor>x\<rfloor> + 1)" by linarith
    moreover have "(of_int (2 ^ nat (bitlen \<lfloor>x\<rfloor>)) :: real) = 2 ^ nat (bitlen \<lfloor>x\<rfloor>)" by simp
    ultimately have "x < 2 ^ nat (bitlen \<lfloor>x\<rfloor>)" by linarith
    moreover have "(2::real) powi (bitlen \<lfloor>x\<rfloor> - 1 + 1) = 2 ^ nat (bitlen \<lfloor>x\<rfloor>)"
      using b1 by (simp add: power_int_def)
    ultimately have B: "x < 2 powi (float32_exponent x + 1)" by (simp add: e)
    from A B show ?thesis ..
  next
    case False
    with assms have x1: "x < 1" by simp
    define m where "m = \<lceil>1 / x\<rceil>"
    define k where "k = bitlen (m - 1)"
    have inv: "1 < 1 / x" using assms x1 by simp
    then have m2: "2 \<le> m" unfolding m_def by linarith
    then have pos: "0 < m - 1" by simp
    from bitlen_bounds[OF pos]
    have lo: "2 ^ nat (k - 1) \<le> m - 1" and hi: "m - 1 < 2 ^ nat k"
      by (simp_all add: k_def)
    have k1: "1 \<le> k"
      using pos bitlen_eq_zero_iff[of "m - 1"] bitlen_nonneg[of "m - 1"] unfolding k_def by linarith
    have e: "float32_exponent x = - k"
      using False by (simp add: float32_exponent_def k_def m_def)
    have "m \<le> 2 ^ nat k" using hi by linarith
    then have "of_int m \<le> (of_int (2 ^ nat k) :: real)" by (simp only: of_int_le_iff)
    moreover have "1 / x \<le> of_int m" unfolding m_def by linarith
    moreover have "(of_int (2 ^ nat k) :: real) = 2 ^ nat k" by simp
    ultimately have "1 / x \<le> 2 ^ nat k" by linarith
    then have "1 \<le> 2 ^ nat k * x" using assms by (simp add: field_simps)
    then have "1 / 2 ^ nat k \<le> x" by (simp add: field_simps)
    moreover have "(2::real) powi (- k) = 1 / 2 ^ nat k"
      using k1 by (simp add: power_int_def field_simps)
    ultimately have A: "2 powi float32_exponent x \<le> x" by (simp add: e)
    have "(of_int (2 ^ nat (k - 1)) :: real) \<le> of_int (m - 1)" using lo by (simp only: of_int_le_iff)
    moreover have "of_int (m - 1) < 1 / x" unfolding m_def by linarith
    moreover have "(of_int (2 ^ nat (k - 1)) :: real) = 2 ^ nat (k - 1)" by simp
    ultimately have "2 ^ nat (k - 1) < 1 / x" by linarith
    then have "2 ^ nat (k - 1) * x < 1" using assms by (simp add: field_simps)
    then have "x < 1 / 2 ^ nat (k - 1)" by (simp add: field_simps)
    moreover have "(2::real) powi (- k + 1) = 1 / 2 ^ nat (k - 1)"
    proof (cases "k = 1")
      case True then show ?thesis by simp
    next
      case False
      with k1 have "nat (k - 1) = nat (- (- k + 1))" and "\<not> 0 \<le> - k + 1" by simp_all
      then show ?thesis by (simp add: power_int_def field_simps)
    qed
    ultimately have B: "x < 2 powi (float32_exponent x + 1)" by (simp add: e)
    from A B show ?thesis ..
  qed
  then show "2 powi float32_exponent x \<le> x" and "x < 2 powi (float32_exponent x + 1)"
    by simp_all
qed

lemma float32_pos_upper:
  assumes "0 < x"
  shows "float32_pos x \<le> 2 powi (max (float32_exponent x) (- 126) + 1)"
proof -
  define c where "c = max (float32_exponent x) (- 126)"
  define u :: real where "u = 2 powi (c - 23)"
  have u: "0 < u" by (simp add: u_def)
  have hi: "2 powi (c + 1) = 2 ^ 24 * u"
    using power_int_add[of "2::real" 24 "c - 23"] by (simp add: u_def add.commute)
  have f: "float32_pos x = of_int (round_half_even (x / u)) * u"
    by (simp add: float32_pos_def Let_def u_def c_def)
  have "(2::real) powi (float32_exponent x + 1) \<le> 2 powi (c + 1)"
    by (intro power_int_increasing) (simp_all add: c_def)
  with float32_exponent_bounds(2)[OF assms] have "x < 2 ^ 24 * u"
    using hi by linarith
  with u have "x / u \<le> of_int (2 ^ 24)"
    by (simp add: field_simps)
  then have "round_half_even (x / u) \<le> round_half_even (of_int (2 ^ 24))"
    by (simp only: round_half_even_mono)
  then have "round_half_even (x / u) \<le> (2 ^ 24 :: int)"
    by (simp only: round_half_even_of_int)
  then have "(of_int (round_half_even (x / u)) :: real) \<le> of_int (2 ^ 24)"
    by (simp only: of_int_le_iff)
  with u have "of_int (round_half_even (x / u)) * u \<le> 2 ^ 24 * u"
    by simp
  then show ?thesis
    using hi f by (simp add: c_def)
qed

lemma float32_pos_lower:
  assumes "0 < x" and "- 126 \<le> float32_exponent x"
  shows "2 powi float32_exponent x \<le> float32_pos x"
proof -
  define e where "e = float32_exponent x"
  define u :: real where "u = 2 powi (e - 23)"
  have u: "0 < u" by (simp add: u_def)
  have c: "max (float32_exponent x) (- 126) = e"
    using assms(2) by (simp add: e_def)
  have lo: "2 powi e = 2 ^ 23 * u"
    using power_int_add[of "2::real" 23 "e - 23"] by (simp add: u_def)
  have f: "float32_pos x = of_int (round_half_even (x / u)) * u"
    by (simp add: float32_pos_def Let_def u_def c)
  from float32_exponent_bounds(1)[OF assms(1)]
  have "2 ^ 23 * u \<le> x"
    using lo by (simp add: e_def)
  with u have "of_int (2 ^ 23) \<le> x / u"
    by (simp add: field_simps)
  then have "round_half_even (of_int (2 ^ 23)) \<le> round_half_even (x / u)"
    by (simp only: round_half_even_mono)
  then have "(2 ^ 23 :: int) \<le> round_half_even (x / u)"
    by (simp only: round_half_even_of_int)
  then have "(of_int (2 ^ 23) :: real) \<le> of_int (round_half_even (x / u))"
    by (simp only: of_int_le_iff)
  with u have "2 ^ 23 * u \<le> of_int (round_half_even (x / u)) * u"
    by simp
  then show ?thesis
    using lo f by (simp add: e_def)
qed

lemma float32_pos_nonneg:
  assumes "0 < x" shows "0 \<le> float32_pos x"
proof -
  define u :: real where "u = 2 powi (max (float32_exponent x) (- 126) - 23)"
  have u: "0 < u" by (simp add: u_def)
  with assms have "of_int 0 \<le> x / u" by simp
  then have "round_half_even (of_int 0) \<le> round_half_even (x / u)"
    by (simp only: round_half_even_mono)
  then have "0 \<le> round_half_even (x / u)"
    by (simp only: round_half_even_of_int)
  then have "(0::real) \<le> of_int (round_half_even (x / u))" by simp
  with u show ?thesis
    by (simp add: float32_pos_def Let_def u_def)
qed

text \<open>The rounding is to nearest: the error is at most half a unit in the last place.\<close>

lemma float32_pos_nearest:
  assumes "0 < x"
  shows "\<bar>float32_pos x - x\<bar> \<le> 2 powi (max (float32_exponent x) (- 126) - 24)"
proof -
  define c where "c = max (float32_exponent x) (- 126)"
  define u :: real where "u = 2 powi (c - 23)"
  have u: "0 < u" by (simp add: u_def)
  have half: "2 powi (c - 24) = u / 2"
    using power_int_add[of "2::real" "c - 24" 1] by (simp add: u_def)
  have f: "float32_pos x = of_int (round_half_even (x / u)) * u"
    by (simp add: float32_pos_def Let_def u_def c_def)
  from round_half_even_bounds[of "x / u"]
  have "\<bar>of_int (round_half_even (x / u)) - x / u\<bar> \<le> 1 / 2" by linarith
  then have "\<bar>of_int (round_half_even (x / u)) - x / u\<bar> * u \<le> 1 / 2 * u"
    using u by (intro mult_right_mono) simp_all
  moreover have "\<bar>of_int (round_half_even (x / u)) - x / u\<bar> * u
      = \<bar>of_int (round_half_even (x / u)) * u - x\<bar>"
  proof -
    have "\<bar>of_int (round_half_even (x / u)) - x / u\<bar> * u
        = \<bar>(of_int (round_half_even (x / u)) - x / u) * u\<bar>"
      using u by (simp add: abs_mult)
    also have "(of_int (round_half_even (x / u)) - x / u) * u
        = of_int (round_half_even (x / u)) * u - x"
      using u by (simp add: left_diff_distrib)
    finally show ?thesis .
  qed
  ultimately show ?thesis using half by (simp add: f c_def)
qed

lemma float32_exponent_mono:
  assumes "0 < x" and "x \<le> y"
  shows "float32_exponent x \<le> float32_exponent y"
proof (rule ccontr)
  assume "\<not> float32_exponent x \<le> float32_exponent y"
  then have "float32_exponent y + 1 \<le> float32_exponent x" by simp
  then have "(2::real) powi (float32_exponent y + 1) \<le> 2 powi float32_exponent x"
    by (intro power_int_increasing) simp_all
  moreover from assms have "0 < y" by simp
  ultimately show False
    using float32_exponent_bounds(1)[OF assms(1)] float32_exponent_bounds(2)[OF \<open>0 < y\<close>] assms(2)
    by linarith
qed

lemma float32_pos_mono:
  assumes "0 < x" and "x \<le> y"
  shows "float32_pos x \<le> float32_pos y"
proof (cases "max (float32_exponent x) (- 126) = max (float32_exponent y) (- 126)")
  case True
  define u :: real where "u = 2 powi (max (float32_exponent y) (- 126) - 23)"
  have u: "0 < u" by (simp add: u_def)
  with assms(2) have "x / u \<le> y / u" by (simp add: divide_right_mono)
  then have "round_half_even (x / u) \<le> round_half_even (y / u)"
    by (rule round_half_even_mono)
  then have "(of_int (round_half_even (x / u)) :: real) \<le> of_int (round_half_even (y / u))"
    by (simp only: of_int_le_iff)
  with u have "of_int (round_half_even (x / u)) * u \<le> of_int (round_half_even (y / u)) * u"
    by simp
  then show ?thesis
    by (simp add: float32_pos_def Let_def True u_def)
next
  case False
  from assms have y: "0 < y" by simp
  from False float32_exponent_mono[OF assms]
  have normal: "- 126 \<le> float32_exponent y"
    and less: "max (float32_exponent x) (- 126) + 1 \<le> float32_exponent y"
    by linarith+
  from less
  have "(2::real) powi (max (float32_exponent x) (- 126) + 1) \<le> 2 powi float32_exponent y"
    by (intro power_int_increasing) simp_all
  then show ?thesis
    using float32_pos_upper[OF assms(1)] float32_pos_lower[OF y normal]
    by linarith
qed

lemma float32_nearest_mono:
  assumes "x \<le> y" shows "float32_nearest x \<le> float32_nearest y"
proof -
  consider "0 < x" | "x = 0" | "x < 0" by linarith
  then show ?thesis
  proof cases
    case 1
    with assms have "0 < y" by simp
    with 1 assms show ?thesis by (simp add: float32_nearest_def float32_pos_mono)
  next
    case 2
    with assms have "y = 0 \<or> 0 < y" by linarith
    with 2 show ?thesis
      using float32_pos_nonneg[of y] by (auto simp: float32_nearest_def)
  next
    case 3
    consider "0 < y" | "y = 0" | "y < 0" by linarith
    then show ?thesis
    proof cases
      case 1
      with 3 show ?thesis
        using float32_pos_nonneg[of y] float32_pos_nonneg[of "- x"]
        by (simp add: float32_nearest_def)
    next
      case 2
      with 3 show ?thesis
        using float32_pos_nonneg[of "- x"] by (simp add: float32_nearest_def)
    next
      case 3
      with \<open>x < 0\<close> assms have "float32_pos (- y) \<le> float32_pos (- x)"
        by (intro float32_pos_mono) simp_all
      with 3 \<open>x < 0\<close> show ?thesis by (simp add: float32_nearest_def)
    qed
  qed
qed

lemma float32_nearest_0: "float32_nearest 0 = 0"
  by (simp add: float32_nearest_def)

lemma float32_nearest_1: "float32_nearest 1 = 1"
  by (simp add: float32_nearest_def float32_pos_def float32_exponent_def round_half_even_def
      compute_bitlen)

lemma float32_nearest_3000: "float32_nearest 3000 = 3000"
  by (simp add: float32_nearest_def float32_pos_def float32_exponent_def round_half_even_def
      compute_bitlen)

lemma float32_pos_of_int_exact:
  assumes "0 < n" and "n \<le> 2 ^ 24"
  shows "float32_pos (of_int n) = of_int n"
proof -
  define e where "e = float32_exponent (of_int n)"
  define u :: real where "u = 2 powi (e - 23)"
  have pos: "(0::real) < of_int n" using assms(1) by simp
  from float32_exponent_bounds[OF pos]
  have lo: "2 powi e \<le> (of_int n :: real)" and hi: "(of_int n :: real) < 2 powi (e + 1)"
    by (simp_all add: e_def)
  have e0: "0 \<le> e"
  proof (rule ccontr)
    assume "\<not> 0 \<le> e"
    then have "e + 1 \<le> 0" by simp
    then have "(2::real) powi (e + 1) \<le> 2 powi 0" by (intro power_int_increasing) simp_all
    with hi have "(of_int n :: real) < 1" by simp
    with assms(1) show False by simp
  qed
  have e24: "e \<le> 24"
  proof (rule ccontr)
    assume "\<not> e \<le> 24"
    then have "25 \<le> e" by simp
    then have "(2::real) powi 25 \<le> 2 powi e" by (intro power_int_increasing) simp_all
    with lo have "(2::real) ^ 25 \<le> of_int n" by simp
    moreover have "(of_int n :: real) \<le> of_int (2 ^ 24)" using assms(2) by (simp only: of_int_le_iff)
    ultimately show False by simp
  qed
  have c: "max (float32_exponent (of_int n)) (- 126) = e"
    using e0 by (simp add: e_def)
  have f: "float32_pos (of_int n) = of_int (round_half_even (of_int n / u)) * u"
    by (simp add: float32_pos_def Let_def u_def c)
  show ?thesis
  proof (cases "e = 24")
    case True
    with lo have "(2::real) ^ 24 \<le> of_int n" by simp
    then have "(of_int (2 ^ 24) :: real) \<le> of_int n" by simp
    then have "2 ^ 24 \<le> n" by (simp only: of_int_le_iff)
    with assms(2) have n: "n = 2 ^ 24" by simp
    show ?thesis
      by (simp add: n float32_pos_def float32_exponent_def round_half_even_def compute_bitlen)
  next
    case False
    with e24 have e23: "e \<le> 23" by simp
    define k where "k = nat (23 - e)"
    have u: "u = 1 / 2 ^ k"
      using e23 by (cases "e = 23") (simp_all add: u_def k_def power_int_def field_simps)
    then have "(of_int n :: real) / u = of_int (n * 2 ^ k)" by simp
    then have "round_half_even (of_int n / u) = n * 2 ^ k" by (simp only: round_half_even_of_int)
    then show ?thesis by (simp add: f u)
  qed
qed

lemma float32_nearest_of_int_exact:
  assumes "\<bar>n\<bar> \<le> 2 ^ 24"
  shows "float32_nearest (of_int n) = of_int n"
proof -
  consider "0 < n" | "n = 0" | "n < 0" by linarith
  then show ?thesis
  proof cases
    case 1
    with assms show ?thesis by (simp add: float32_nearest_def float32_pos_of_int_exact)
  next
    case 2
    then show ?thesis by (simp add: float32_nearest_def)
  next
    case 3
    with assms have "0 < - n" and "- n \<le> 2 ^ 24" by simp_all
    then have "float32_pos (of_int (- n)) = of_int (- n)" by (rule float32_pos_of_int_exact)
    with 3 show ?thesis by (simp add: float32_nearest_def)
  qed
qed

text \<open>
  A result is infinite only when the rounded magnitude reaches \<open>2 ^ 128\<close>; a value from
  0 to 3000 is cast to a float32 from 0 to 3000, and a quotient from 0 to 1 is rounded
  to a float32 from 0 to 1.
\<close>

lemma float32_finite:
  assumes "- (2 ^ 128) < float32_nearest x" and "float32_nearest x < 2 ^ 128"
  shows "float32 x = Finite (float32_nearest x)"
  using assms by (simp add: float32_def Let_def)

lemma float32_between:
  assumes "0 \<le> x" and "x \<le> 3000"
  shows "float32 x = Finite (float32_nearest x)"
    and "0 \<le> float32_nearest x" and "float32_nearest x \<le> 3000"
proof -
  from assms have "float32_nearest 0 \<le> float32_nearest x"
    and "float32_nearest x \<le> float32_nearest 3000"
    by (simp_all only: float32_nearest_mono)
  then show lo: "0 \<le> float32_nearest x" and hi: "float32_nearest x \<le> 3000"
    by (simp_all add: float32_nearest_0 float32_nearest_3000)
  from lo hi show "float32 x = Finite (float32_nearest x)"
    by (intro float32_finite) simp_all
qed

lemma float32_unit:
  assumes "0 \<le> q" and "q \<le> 1"
  shows "float32 q = Finite (float32_nearest q)"
    and "0 \<le> float32_nearest q" and "float32_nearest q \<le> 1"
proof -
  from assms have "float32_nearest 0 \<le> float32_nearest q"
    and "float32_nearest q \<le> float32_nearest 1"
    by (simp_all only: float32_nearest_mono)
  then show lo: "0 \<le> float32_nearest q" and hi: "float32_nearest q \<le> 1"
    by (simp_all add: float32_nearest_0 float32_nearest_1)
  from lo hi show "float32 q = Finite (float32_nearest q)"
    by (intro float32_finite) simp_all
qed

lemma float32_0: "float32 0 = Finite 0"
  by (simp add: float32_def float32_nearest_0)

lemma float32_1: "float32 1 = Finite 1"
  by (simp add: float32_def float32_nearest_1)

subsection \<open>The elements of \<^verbatim>\<open>normalize\<close>\<close>

lemma normalize_elem:
  "elem (normalize arr) idx = true_divide (clip (to_float32 (elem arr idx)) 0 3000) 3000"
  by (simp add: normalize_def np_divide_def np_clip_def astype_float32_def)

lemma normalize_shape: "shape (normalize arr) = shape arr"
  by (simp add: normalize_def np_divide_def np_clip_def astype_float32_def)

text \<open>After the cast and the clip, an element that is not NaN is a float from 0 to 3000.\<close>

lemma clip_to_float32_range:
  assumes "v \<noteq> NaN"
  shows "\<exists>c. clip (to_float32 v) 0 3000 = Finite c \<and> 0 \<le> c \<and> c \<le> 3000"
proof (cases v)
  case (Finite x)
  show ?thesis
  proof (cases "float32 x")
    case (Finite m)
    then show ?thesis using \<open>v = Finite x\<close> by (simp add: clip_def to_float32_def)
  next
    case PosInf
    then show ?thesis using \<open>v = Finite x\<close> by (simp add: clip_def to_float32_def)
  next
    case NegInf
    then show ?thesis using \<open>v = Finite x\<close> by (simp add: clip_def to_float32_def)
  next
    case NaN
    then show ?thesis by (simp add: float32_def Let_def split: if_splits)
  qed
qed (use assms in \<open>simp_all add: clip_def to_float32_def\<close>)

lemma clip_to_float32_high:
  assumes "number_le (Finite 3000) v"
  shows "clip (to_float32 v) 0 3000 = Finite 3000"
proof (cases v)
  case (Finite x)
  with assms have "3000 \<le> x" by simp
  then have "float32_nearest 3000 \<le> float32_nearest x" by (rule float32_nearest_mono)
  then have "3000 \<le> float32_nearest x" by (simp add: float32_nearest_3000)
  then show ?thesis
    using Finite by (simp add: clip_def to_float32_def float32_def Let_def)
qed (use assms in \<open>simp_all add: clip_def to_float32_def\<close>)

lemma clip_to_float32_low:
  assumes "number_le v (Finite 0)"
  shows "clip (to_float32 v) 0 3000 = Finite 0"
proof (cases v)
  case (Finite x)
  with assms have "x \<le> 0" by simp
  then have "float32_nearest x \<le> float32_nearest 0" by (rule float32_nearest_mono)
  then have "float32_nearest x \<le> 0" by (simp add: float32_nearest_0)
  then show ?thesis
    using Finite by (simp add: clip_def to_float32_def float32_def Let_def)
qed (use assms in \<open>simp_all add: clip_def to_float32_def\<close>)

lemma normalize_elem_nan:
  assumes "elem arr idx = NaN" shows "elem (normalize arr) idx = NaN"
  using assms by (simp add: normalize_elem to_float32_def clip_def true_divide_def)

lemma normalize_elem_range:
  assumes "elem arr idx \<noteq> NaN"
  shows "\<exists>y. elem (normalize arr) idx = Finite y \<and> 0 \<le> y \<and> y \<le> 1"
proof -
  from clip_to_float32_range[OF assms] obtain c where
    c: "clip (to_float32 (elem arr idx)) 0 3000 = Finite c" "0 \<le> c" "c \<le> 3000"
    by blast
  then have "0 \<le> c / 3000" and "c / 3000 \<le> 1" by simp_all
  from float32_unit[OF this] c(1) show ?thesis
    by (simp add: normalize_elem true_divide_def)
qed

lemma normalize_elem_saturates:
  assumes "number_le (Finite 3000) (elem arr idx)"
  shows "elem (normalize arr) idx = Finite 1"
  using clip_to_float32_high[OF assms] by (simp add: normalize_elem true_divide_def float32_1)

lemma normalize_elem_clips:
  assumes "number_le (elem arr idx) (Finite 0)"
  shows "elem (normalize arr) idx = Finite 0"
  using clip_to_float32_low[OF assms] by (simp add: normalize_elem true_divide_def float32_0)

lemma normalize_elem_between:
  assumes "elem arr idx = Finite x" and "0 \<le> x" and "x \<le> 3000"
  shows "elem (normalize arr) idx = float32 (float32_nearest x / 3000)"
  using assms float32_between[of x]
  by (simp add: normalize_elem true_divide_def clip_def to_float32_def)

lemma normalize_elem_of_int:
  assumes "elem arr idx = Finite (of_int k)" and "0 \<le> k" and "k \<le> 3000"
  shows "elem (normalize arr) idx = float32 (of_int k / 3000)"
proof -
  from assms(2,3) have "\<bar>k\<bar> \<le> 2 ^ 24" by simp
  then have "float32_nearest (of_int k) = of_int k" by (rule float32_nearest_of_int_exact)
  with normalize_elem_between[OF assms(1)] assms(2,3) show ?thesis by simp
qed

subsection \<open>What \<^verbatim>\<open>read_band\<close> returns\<close>

lemma band_arrs_unique:
  assumes "list_all2 (\<lambda>band arr. f band = Inr arr) bands xs"
    and "list_all2 (\<lambda>band arr. f band = Inr arr) bands ys"
  shows "xs = ys"
proof (rule nth_equalityI)
  show "length xs = length ys"
    using assms by (simp add: list_all2_conv_all_nth)
  fix i assume "i < length xs"
  with assms have "f (bands ! i) = Inr (xs ! i)" and "f (bands ! i) = Inr (ys ! i)"
    by (simp_all add: list_all2_conv_all_nth)
  then show "xs ! i = ys ! i" by simp
qed

lemma read_band_Inr_iff:
  "read_band env item asset_href bb bands = Inr (preview, t) \<longleftrightarrow>
     (\<exists>signed_href src w arrs.
        sign env asset_href = Inr signed_href \<and> rasterio_open env signed_href = Inr src \<and>
        pixel_window src bb = Inr w \<and>
        list_all2 (\<lambda>band arr. band_arr env item w band = Inr arr) bands arrs \<and>
        np_stack arrs = Inr preview \<and> t = transform src)"
proof
  assume "read_band env item asset_href bb bands = Inr (preview, t)"
  then show "\<exists>signed_href src w arrs.
        sign env asset_href = Inr signed_href \<and> rasterio_open env signed_href = Inr src \<and>
        pixel_window src bb = Inr w \<and>
        list_all2 (\<lambda>band arr. band_arr env item w band = Inr arr) bands arrs \<and>
        np_stack arrs = Inr preview \<and> t = transform src"
    by (auto simp: read_band_def read_bands_Inr_iff split: sum.splits)
next
  assume "\<exists>signed_href src w arrs.
        sign env asset_href = Inr signed_href \<and> rasterio_open env signed_href = Inr src \<and>
        pixel_window src bb = Inr w \<and>
        list_all2 (\<lambda>band arr. band_arr env item w band = Inr arr) bands arrs \<and>
        np_stack arrs = Inr preview \<and> t = transform src"
  then obtain signed_href src w arrs where
    s: "sign env asset_href = Inr signed_href" and o: "rasterio_open env signed_href = Inr src"
    and w: "pixel_window src bb = Inr w"
    and l: "list_all2 (\<lambda>band arr. band_arr env item w band = Inr arr) bands arrs"
    and n: "np_stack arrs = Inr preview" and t: "t = transform src"
    by blast
  from l have "read_bands env item w bands [] = Inr arrs"
    by (simp add: read_bands_Inr_iff)
  with s o w n t show "read_band env item asset_href bb bands = Inr (preview, t)"
    by (simp add: read_band_def)
qed

lemma band_arr_absent: "assets item band = None \<Longrightarrow> band_arr env item w band = Inl (KeyError band)"
  by (simp add: band_arr_def)

lemma read_band_shape:
  assumes "read_band env item asset_href bb bands = Inr (preview, t)"
  shows "bands \<noteq> [] \<and> shape preview \<noteq> [] \<and> last (shape preview) = length bands"
proof -
  from assms obtain arrs where
    l: "length bands = length arrs" and n: "np_stack arrs = Inr preview"
    unfolding read_band_Inr_iff by (auto simp: list_all2_conv_all_nth)
  from n l show ?thesis by (auto simp: np_stack_Inr_iff)
qed

lemma read_band_absent_fails:
  assumes "band \<in> set bands" and "assets item band = None"
  shows "isl (read_band env item asset_href bb bands)"
proof (cases "read_band env item asset_href bb bands")
  case (Inl e)
  then show ?thesis by simp
next
  case (Inr r)
  obtain preview t where "r = (preview, t)" by (cases r)
  with Inr have "read_band env item asset_href bb bands = Inr (preview, t)" by simp
  then obtain w arrs where
    "list_all2 (\<lambda>band arr. band_arr env item w band = Inr arr) bands arrs"
    unfolding read_band_Inr_iff by blast
  with assms(1) obtain arr where "band_arr env item w band = Inr arr"
    by (auto simp: list_all2_conv_all_nth in_set_conv_nth)
  with band_arr_absent[OF assms(2), of env w] show ?thesis by simp
qed

subsection \<open>Boxes outside the raster\<close>







subsection \<open>The example inputs\<close>

lemma example_sign: "sign example_remote h = Inr (h @ ''?sig'')"
  by (simp add: example_remote_def)

lemma example_open:
  "rasterio_open example_remote ''B02.tif?sig'' = Inr (example_tile 2)"
  "rasterio_open example_remote ''B03.tif?sig'' = Inr (example_tile 3)"
  "rasterio_open example_remote ''B04.tif?sig'' = Inr (example_tile 4)"
  "rasterio_open example_remote ''B08.tif?sig'' = Inr (example_tile 8)"
  "rasterio_open example_remote ''B09.tif?sig'' = Inl (RasterioIOError ''B09.tif?sig'')"
  by (simp_all add: example_remote_def)


lemma example_assets:
  "assets example_item ''B02'' = Some \<lparr>href = ''B02.tif''\<rparr>"
  "assets example_item ''B03'' = Some \<lparr>href = ''B03.tif''\<rparr>"
  "assets example_item ''B04'' = Some \<lparr>href = ''B04.tif''\<rparr>"
  "assets example_item ''B08'' = Some \<lparr>href = ''B08.tif''\<rparr>"
  "assets example_item ''B05'' = None"
  by (simp_all add: example_item_def)


lemma example_read:
  assumes "row_off w < 120" and "col_off w < 180"
  shows "read (example_raster v) b w (256, 256) = Inr \<lparr>shape = [256, 256], elem = (\<lambda>idx. v)\<rparr>"
  using assms by (simp add: example_raster_def)


lemma example_band_arr:
  assumes "row_off w < 120" and "col_off w < 180"
  shows
  "band_arr example_remote example_item w ''B02'' = Inr \<lparr>shape = [256, 256], elem = (\<lambda>idx. 2)\<rparr>"
  "band_arr example_remote example_item w ''B03'' = Inr \<lparr>shape = [256, 256], elem = (\<lambda>idx. 3)\<rparr>"
  "band_arr example_remote example_item w ''B04'' = Inr \<lparr>shape = [256, 256], elem = (\<lambda>idx. 4)\<rparr>"
  "band_arr example_remote example_item w ''B08'' = Inr \<lparr>shape = [256, 256], elem = (\<lambda>idx. 8)\<rparr>"
  using assms
  by (simp_all add: band_arr_def example_assets example_sign example_open example_read)

lemma example_numeric_sign: "sign example_numeric_remote h = Inr (h @ ''?sig'')"
  by (simp add: example_numeric_remote_def)

lemma example_numeric_open:
  "rasterio_open example_numeric_remote ''B02.tif?sig'' = Inr (example_raster (Finite 2))"
  "rasterio_open example_numeric_remote ''B03.tif?sig'' = Inr (example_raster (Finite 3))"
  "rasterio_open example_numeric_remote ''B04.tif?sig'' = Inr (example_raster (Finite 4))"
  "rasterio_open example_numeric_remote ''B08.tif?sig'' = Inr (example_raster (Finite 8))"
  by (simp_all add: example_numeric_remote_def)

lemma example_numeric_band_arr:
  assumes "row_off w < 120" and "col_off w < 180"
  shows
  "band_arr example_numeric_remote example_item w ''B02''
     = Inr \<lparr>shape = [256, 256], elem = (\<lambda>idx. Finite 2)\<rparr>"
  "band_arr example_numeric_remote example_item w ''B03''
     = Inr \<lparr>shape = [256, 256], elem = (\<lambda>idx. Finite 3)\<rparr>"
  "band_arr example_numeric_remote example_item w ''B04''
     = Inr \<lparr>shape = [256, 256], elem = (\<lambda>idx. Finite 4)\<rparr>"
  "band_arr example_numeric_remote example_item w ''B08''
     = Inr \<lparr>shape = [256, 256], elem = (\<lambda>idx. Finite 8)\<rparr>"
  using assms
  by (simp_all add: band_arr_def example_assets example_numeric_sign example_numeric_open
      example_read)

lemma example_window:
  "pixel_window (example_raster v) example_bbox =
     Inr \<lparr>col_off = 2, row_off = 11, width = 0, height = 0\<rparr>"
  by (simp add: pixel_window_def example_raster_def example_bbox_def make_bbox_def from_slices_def)

lemma example_window_wide:
  "pixel_window (example_raster v) (2, 45, 5, 49) =
     Inr \<lparr>col_off = 2, row_off = 11, width = 3, height = 4\<rparr>"
  by (simp add: pixel_window_def example_raster_def from_slices_def)




subsection \<open>Indices, planes and the export loop\<close>

lemma ndindex_iff: "idx \<in> set (ndindex s) \<longleftrightarrow> list_all2 (<) idx s"
proof (induction s arbitrary: idx)
  case Nil
  then show ?case by auto
next
  case (Cons n ns)
  show ?case
    by (cases idx) (auto simp: Cons.IH image_iff)
qed

declare ndindex.simps [simp del]

lemma list_all2_less_last:
  assumes "list_all2 (<) idx (s @ [n])"
  shows "idx \<noteq> [] \<and> last idx < n \<and> list_all2 (<) (butlast idx) s"
proof -
  from assms obtain us v where "idx = us @ [v]" and "list_all2 (<) us s" and "v < n"
    by (auto simp: list_all2_append2 list_all2_Cons2)
  then show ?thesis by simp
qed

lemma last_axis_item_plane:
  "shape a \<noteq> [] \<Longrightarrow> i < last (shape a) \<Longrightarrow> last_axis_item a i = Inr (plane_of a i)"
  by (simp add: last_axis_item_def plane_of_def)

lemma write_bands_upt:
  assumes "shape preview = [h, w, n]"
    and "dst_height dst = h" and "dst_width dst = w" and "dst_count dst = n"
    and "length (dst_bands dst) = n" and "j \<le> n"
  shows "write_bands preview [j..<n] dst =
           Inr (dst\<lparr>dst_bands := take j (dst_bands dst) @ map (plane_of preview) [j..<n]\<rparr>)"
  using assms
proof (induction "n - j" arbitrary: j dst)
  case 0
  then show ?case by simp
next
  case (Suc d)
  then have j: "j < n" by simp
  let ?dst1 = "dst\<lparr>dst_bands := (dst_bands dst)[j := plane_of preview j]\<rparr>"
  have item: "last_axis_item preview j = Inr (plane_of preview j)"
    using Suc.prems(1) j by (simp add: last_axis_item_plane)
  have wr: "dst_write dst (plane_of preview j) (j + 1) = Inr ?dst1"
    using Suc.prems j by (simp add: dst_write_def plane_of_def)
  have "write_bands preview [Suc j..<n] ?dst1 =
           Inr (?dst1\<lparr>dst_bands := take (Suc j) (dst_bands ?dst1) @ map (plane_of preview) [Suc j..<n]\<rparr>)"
    using Suc.hyps(2) Suc.prems j by (intro Suc.hyps(1)) simp_all
  moreover have "take (Suc j) (dst_bands ?dst1) = take j (dst_bands dst) @ [plane_of preview j]"
    using Suc.prems(5) j by (simp add: take_Suc_conv_app_nth)
  ultimately show ?case
    using item wr j by (simp add: upt_conv_Cons)
qed

lemma np_stack_planes:
  assumes "shape preview = [h, w, n]" and "0 < n"
  shows "\<exists>reread. np_stack (map (plane_of preview) [0..<n]) = Inr reread \<and> array_equal reread preview"
proof -
  let ?ps = "map (plane_of preview) [0..<n]"
  let ?reread = "\<lparr>shape = shape (hd ?ps) @ [length ?ps],
                 elem = (\<lambda>idx. elem (?ps ! last idx) (butlast idx))\<rparr>"
  have ne: "?ps \<noteq> []" using assms(2) by simp
  have hd: "shape (hd ?ps) = [h, w]"
    using assms by (simp add: hd_map plane_of_def upt_conv_Cons)
  have all: "list_all (\<lambda>b. shape b = shape (hd ?ps)) ?ps"
    using assms(1) by (simp add: hd list_all_iff plane_of_def)
  have st: "np_stack ?ps = Inr ?reread"
    using ne all by (simp add: np_stack_Inr_iff)
  have "elem ?reread idx = elem preview idx" if "idx \<in> set (ndindex [h, w, n])" for idx
  proof -
    from that have "list_all2 (<) idx ([h, w] @ [n])" by (simp add: ndindex_iff)
    from list_all2_less_last[OF this] have "idx \<noteq> []" and "last idx < n" by simp_all
    then show ?thesis by (simp add: plane_of_def)
  qed
  then have "array_equal ?reread preview"
    using assms(1) hd by (simp add: array_equal_def list_all_iff)
  with st show ?thesis by blast
qed

section \<open>Properties\<close>

subsection \<open>The pixel window\<close>

text \<open>
  C1. The window is built from the minimum and the maximum of the two row indices and of
  the two column indices that the corners (left, top) and (right, bottom) map to, so the
  two corners can be passed in either order: exchanging them gives the same result, on
  every raster.
\<close>

theorem pixel_window_corner_order:
  "pixel_window src (left, bottom, right, top')
     = from_slices (min (fst (index src left top')) (fst (index src right bottom)),
                    max (fst (index src left top')) (fst (index src right bottom)))
                   (min (snd (index src left top')) (snd (index src right bottom)),
                    max (snd (index src left top')) (snd (index src right bottom)))
   \<and> pixel_window src (left, bottom, right, top') = pixel_window src (right, top', left, bottom)"
  by (simp add: pixel_window_def min.commute max.commute split: prod.splits)

text \<open>
  On the example raster the corners (2, 49) and (5, 45) give the window of 3 columns and
  4 rows at column 2 and row 11, in either order.
\<close>

theorem pixel_window_corner_order_witness:
  "pixel_window (example_tile 4) (2, 45, 5, 49)
     = Inr \<lparr>col_off = 2, row_off = 11, width = 3, height = 4\<rparr>
   \<and> pixel_window (example_tile 4) (5, 49, 2, 45)
     = Inr \<lparr>col_off = 2, row_off = 11, width = 3, height = 4\<rparr>"
proof -
  have "pixel_window (example_tile 4) (2, 45, 5, 49) = pixel_window (example_tile 4) (5, 49, 2, 45)"
    using pixel_window_corner_order[of "example_tile 4" 2 45 5 49] by (rule conjunct2)
  then show ?thesis by (simp add: example_window_wide)
qed

text \<open>
  C2, as the code has it. For every box, valid or not, for which a window is built (no
  index is negative), the window's width and height are the distances between the two
  corners' column indices and row indices. They are never negative; the width is
  positive exactly when the two corners fall into different pixel columns of the
  reference raster, the height exactly when they fall into different rows. Nothing in
  \<^verbatim>\<open>read_band\<close> makes a valid box span a pixel.
\<close>

theorem window_extent:
  assumes "pixel_window src (left, bottom, right, top') = Inr w"
  shows "width w = \<bar>snd (index src left top') - snd (index src right bottom)\<bar>
   \<and> height w = \<bar>fst (index src left top') - fst (index src right bottom)\<bar>
   \<and> 0 \<le> width w \<and> 0 \<le> height w
   \<and> (0 < width w \<longleftrightarrow> snd (index src left top') \<noteq> snd (index src right bottom))
   \<and> (0 < height w \<longleftrightarrow> fst (index src left top') \<noteq> fst (index src right bottom))"
  using assms
  by (auto simp add: pixel_window_def from_slices_def split: prod.splits if_splits)

text \<open>
  On the example raster the box from longitude 2 to 5 and latitude 45 to 49 spans 3
  columns and 4 rows.
\<close>

theorem window_extent_witness:
  "pixel_window (example_tile 4) (2, 45, 5, 49)
     = Inr \<lparr>col_off = 2, row_off = 11, width = 3, height = 4\<rparr>
   \<and> snd (index (example_tile 4) 2 49) \<noteq> snd (index (example_tile 4) 5 45)
   \<and> fst (index (example_tile 4) 2 49) \<noteq> fst (index (example_tile 4) 5 45)"
  using window_extent[OF example_window_wide[of "4::int"]]
  by (simp add: example_window_wide)

text \<open>
  C2 as stated fails: the script's default box has west < east and south < north, and on
  the example raster both corners fall into the pixel of column 2 and row 11, so the
  window has width 0 and height 0.
\<close>

theorem window_positive_counterexample:
  "example_bbox = (22745 / 10000, 488384 / 10000, 23145 / 10000, 488784 / 10000)
   \<and> (22745 / 10000 :: real) < 23145 / 10000 \<and> (488384 / 10000 :: real) < 488784 / 10000
   \<and> pixel_window (example_tile 4) example_bbox
       = Inr \<lparr>col_off = 2, row_off = 11, width = 0, height = 0\<rparr>"
  by (simp add: example_window) (simp add: example_bbox_def make_bbox_def)

subsection \<open>Failures of \<^verbatim>\<open>read_band\<close>\<close>




text \<open>
  C7, as the code has it. If a band of \<^verbatim>\<open>bands\<close> is not a key of \<^verbatim>\<open>item.assets\<close>,
  \<^verbatim>\<open>read_band\<close> fails: it returns no array, partial or whole, and the run of the script
  ends with the error, with no image and no file. The lookup \<^verbatim>\<open>item.assets[band]\<close> raises
  KeyError for that band (the spec's BandNotFoundError), and that is the error of
  \<^verbatim>\<open>read_band\<close> when the steps before the lookup went through: the reference asset was
  signed and opened, the window was built, and every band listed before the missing one
  was read. When signing or opening the reference asset or building the window fails,
  the error of \<^verbatim>\<open>read_band\<close> is the error of that step.
\<close>

theorem read_band_missing_band:
  assumes "band \<in> set bands" and "assets item band = None"
  shows "isl (read_band env item asset_href bb bands)
    \<and> isl (app env' item bb bands button)
    \<and> (sign env asset_href = Inr signed_href \<and> rasterio_open env signed_href = Inr src \<and>
        pixel_window src bb = Inr w \<and> bands = pre @ band # post \<and>
        (\<forall>b \<in> set pre. \<not> isl (band_arr env item w b))
        \<longrightarrow> read_band env item asset_href bb bands = Inl (KeyError band))
    \<and> (sign env asset_href = Inl e
        \<longrightarrow> read_band env item asset_href bb bands = Inl e)
    \<and> (sign env asset_href = Inr signed_href \<and> rasterio_open env signed_href = Inl e
        \<longrightarrow> read_band env item asset_href bb bands = Inl e)
    \<and> (sign env asset_href = Inr signed_href \<and> rasterio_open env signed_href = Inr src \<and>
        pixel_window src bb = Inl e
        \<longrightarrow> read_band env item asset_href bb bands = Inl e)"
proof (intro conjI impI)
  show "isl (read_band env item asset_href bb bands)"
    using assms by (rule read_band_absent_fails)
  show "isl (app env' item bb bands button)"
  proof (cases "assets item ''B04''")
    case None
    then show ?thesis by (simp add: app_def load_preview_def)
  next
    case (Some a)
    with read_band_absent_fails[OF assms, of env' "href a" bb] show ?thesis
      by (cases "read_band env' item (href a) bb bands") (simp_all add: app_def load_preview_def)
  qed
next
  assume a: "sign env asset_href = Inr signed_href \<and> rasterio_open env signed_href = Inr src \<and>
        pixel_window src bb = Inr w \<and> bands = pre @ band # post \<and>
        (\<forall>b \<in> set pre. \<not> isl (band_arr env item w b))"
  define new where "new = map (\<lambda>b. projr (band_arr env item w b)) pre"
  from a have "list_all2 (\<lambda>band arr. band_arr env item w band = Inr arr) pre new"
    by (simp add: new_def list_all2_conv_all_nth)
  then have "read_bands env item w (pre @ band # post) [] = Inl (KeyError band)"
    using band_arr_absent[OF assms(2)] by (rule read_bands_first_failure)
  with a show "read_band env item asset_href bb bands = Inl (KeyError band)"
    by (simp add: read_band_def)
next
  assume "sign env asset_href = Inl e"
  then show "read_band env item asset_href bb bands = Inl e"
    by (simp add: read_band_def)
next
  assume "sign env asset_href = Inr signed_href \<and> rasterio_open env signed_href = Inl e"
  then show "read_band env item asset_href bb bands = Inl e"
    by (simp add: read_band_def)
next
  assume "sign env asset_href = Inr signed_href \<and> rasterio_open env signed_href = Inr src \<and>
        pixel_window src bb = Inl e"
  then show "read_band env item asset_href bb bands = Inl e"
    by (simp add: read_band_def)
qed

text \<open>
  Band B05 is not among the example scene's assets: listed after B08 it is the KeyError of
  \<^verbatim>\<open>read_band\<close>, and the run ends there.
\<close>

theorem read_band_missing_band_witness:
  "assets example_item ''B05'' = None
   \<and> read_band example_remote example_item ''B04.tif'' example_bbox [''B08'', ''B05'', ''B04'']
       = Inl (KeyError ''B05'')
   \<and> isl (app example_numeric_remote example_item example_bbox [''B08'', ''B05'', ''B04''] True)"
  using read_band_missing_band[of "''B05''" "[''B08'', ''B05'', ''B04'']" example_item
      example_remote "''B04.tif''" example_bbox example_numeric_remote True "''B04.tif?sig''"
      "example_tile 4" "\<lparr>col_off = 2, row_off = 11, width = 0, height = 0\<rparr>"
      "[''B08'']" "[''B04'']"]
  by (simp add: example_assets example_sign example_open example_window example_band_arr)

text \<open>
  C7 as stated fails: with B05, which the scene does not have, as the only band, a box
  that reaches west of the example raster ends \<^verbatim>\<open>read_band\<close> with the WindowError of
  \<^verbatim>\<open>Window.from_slices\<close>, and a reference asset that does not open ends it with the
  RasterioIOError of \<^verbatim>\<open>rasterio.open\<close>; the lookup of B05 is not reached.
\<close>

theorem missing_band_counterexample:
  "assets example_item ''B05'' = None
   \<and> read_band example_remote example_item ''B04.tif'' (- 3, 45, 5, 49) [''B05'']
       = Inl (WindowError ''width is required when providing negative indexes'')
   \<and> read_band example_remote example_item ''B09.tif'' example_bbox [''B05'']
       = Inl (RasterioIOError ''B09.tif?sig'')"
  by (simp add: read_band_def example_sign example_open example_assets pixel_window_def
      example_raster_def from_slices_def)

subsection \<open>What \<^verbatim>\<open>read_band\<close> returns\<close>

text \<open>
  C5. The band axis of the array that \<^verbatim>\<open>read_band\<close> returns follows the order of
  \<^verbatim>\<open>bands\<close>: for every position \<open>k\<close> of the list, \<^verbatim>\<open>preview[..., k]\<close> is the array read,
  through the window, from the asset of the \<open>k\<close>-th band name.
\<close>

theorem read_band_band_order:
  assumes "read_band env item asset_href bb bands = Inr (preview, t)"
    and "k < length bands"
  shows "\<exists>signed_href src w arr.
           sign env asset_href = Inr signed_href \<and> rasterio_open env signed_href = Inr src \<and>
           pixel_window src bb = Inr w \<and>
           band_arr env item w (bands ! k) = Inr arr \<and>
           last_axis_item preview k = Inr arr"
proof -
  from assms(1) obtain signed_href src w arrs where
    s: "sign env asset_href = Inr signed_href" and o: "rasterio_open env signed_href = Inr src"
    and w: "pixel_window src bb = Inr w"
    and l: "list_all2 (\<lambda>band arr. band_arr env item w band = Inr arr) bands arrs"
    and n: "np_stack arrs = Inr preview"
    unfolding read_band_Inr_iff by blast
  from l assms(2) have len: "k < length arrs"
    and b: "band_arr env item w (bands ! k) = Inr (arrs ! k)"
    by (simp_all add: list_all2_conv_all_nth)
  from last_axis_item_np_stack[OF n len] s o w b show ?thesis by blast
qed

text \<open>
  Requesting B08 and then B04 from the example scene: band 0 holds the pixels of B08
  (all 8), band 1 those of B04 (all 4).
\<close>

theorem read_band_band_order_witness:
  "last_axis_item
     (fst (projr (read_band example_remote example_item ''B04.tif'' example_bbox
                    [''B08'', ''B04''])))
     0 = Inr \<lparr>shape = [256, 256], elem = (\<lambda>idx. 8)\<rparr>
   \<and> last_axis_item
     (fst (projr (read_band example_remote example_item ''B04.tif'' example_bbox
                    [''B08'', ''B04''])))
     1 = Inr \<lparr>shape = [256, 256], elem = (\<lambda>idx. 4)\<rparr>"
proof -
  define r where
    "r = read_band example_remote example_item ''B04.tif'' example_bbox [''B08'', ''B04'']"
  have "\<not> isl r"
    by (simp add: r_def read_band_def example_sign example_open example_window example_band_arr
        np_stack_def)
  then have ok: "read_band example_remote example_item ''B04.tif'' example_bbox [''B08'', ''B04'']
      = Inr (fst (projr r), snd (projr r))"
    by (simp add: r_def)
  have "last_axis_item (fst (projr r)) 0 = Inr \<lparr>shape = [256, 256], elem = (\<lambda>idx. 8)\<rparr>"
    using read_band_band_order[OF ok, of 0]
    by (auto simp: example_sign example_open example_window example_band_arr)
  moreover
  have "last_axis_item (fst (projr r)) 1 = Inr \<lparr>shape = [256, 256], elem = (\<lambda>idx. 4)\<rparr>"
    using read_band_band_order[OF ok, of 1]
    by (auto simp: example_sign example_open example_window example_band_arr)
  ultimately show ?thesis by (simp add: r_def)
qed

text \<open>
  C6. The transform that \<^verbatim>\<open>read_band\<close> returns is \<^verbatim>\<open>src.transform\<close> of the reference raster,
  the one opened from the signed \<^verbatim>\<open>asset_href\<close> to compute the window. It is the raster's
  own transform and is not recomputed for the window: every successful call with the same
  \<^verbatim>\<open>asset_href\<close> returns the same transform, whatever the box and the bands.
\<close>

theorem read_band_transform:
  assumes "read_band env item asset_href bb bands = Inr (preview, t)"
  shows "(\<exists>signed_href src.
            sign env asset_href = Inr signed_href \<and> rasterio_open env signed_href = Inr src \<and>
            t = transform src)
    \<and> (read_band env item asset_href bb' bands' = Inr (preview', t') \<longrightarrow> t' = t)"
proof -
  from assms obtain signed_href src where
    s: "sign env asset_href = Inr signed_href" and o: "rasterio_open env signed_href = Inr src"
    and t: "t = transform src"
    unfolding read_band_Inr_iff by blast
  have "t' = t" if "read_band env item asset_href bb' bands' = Inr (preview', t')"
    using that s o t unfolding read_band_Inr_iff by auto
  with s o t show ?thesis by blast
qed

text \<open>
  On the example scene the default box (an empty window) and a box of 3 by 4 pixels
  both come back with the tile's transform.
\<close>

theorem read_band_transform_witness:
  "snd (projr (read_band example_remote example_item ''B04.tif'' example_bbox [''B03'']))
     = transform (example_tile 4)
   \<and> snd (projr (read_band example_remote example_item ''B04.tif''
                   (2, 45, 5, 49) [''B08'', ''B02'']))
     = snd (projr (read_band example_remote example_item ''B04.tif'' example_bbox [''B03'']))"
proof -
  define r where "r = read_band example_remote example_item ''B04.tif'' example_bbox [''B03'']"
  define r' where "r' = read_band example_remote example_item ''B04.tif''
                   (2, 45, 5, 49) [''B08'', ''B02'']"
  have "\<not> isl r" and "\<not> isl r'"
    by (simp_all add: r_def r'_def read_band_def example_sign example_open example_window
        example_window_wide example_band_arr np_stack_def)
  then have ok: "read_band example_remote example_item ''B04.tif'' example_bbox [''B03'']
      = Inr (fst (projr r), snd (projr r))"
    and ok': "read_band example_remote example_item ''B04.tif''
                   (2, 45, 5, 49) [''B08'', ''B02'']
      = Inr (fst (projr r'), snd (projr r'))"
    by (simp_all add: r_def r'_def)
  from read_band_transform[OF ok, of "(2, 45, 5, 49)" "[''B08'', ''B02'']"
      "fst (projr r')" "snd (projr r')"] ok'
  show ?thesis
    by (auto simp: r_def[symmetric] r'_def[symmetric] example_sign example_open)
qed

text \<open>
  C10. The pixels that \<^verbatim>\<open>read_band\<close> returns are read from the assets of the global
  \<^verbatim>\<open>item\<close>, not from \<^verbatim>\<open>asset_href\<close>. For two successful calls that differ only in
  \<^verbatim>\<open>asset_href\<close>, band \<open>k\<close> of both results is a read of the same raster, the one opened
  from the signed \<^verbatim>\<open>item.assets[bands[k]].href\<close>; \<^verbatim>\<open>asset_href\<close> gives each call its
  window and its transform, and where the two windows agree the two arrays are the same.
\<close>

theorem read_band_reads_item_assets:
  assumes "read_band env item href1 bb bands = Inr (preview1, t1)"
    and "read_band env item href2 bb bands = Inr (preview2, t2)"
    and "k < length bands"
  shows "\<exists>src1 src2 w1 w2 a signed bsrc.
           (case sign env href1 of Inl e \<Rightarrow> Inl e | Inr h \<Rightarrow> rasterio_open env h) = Inr src1 \<and>
           (case sign env href2 of Inl e \<Rightarrow> Inl e | Inr h \<Rightarrow> rasterio_open env h) = Inr src2 \<and>
           t1 = transform src1 \<and> t2 = transform src2 \<and>
           pixel_window src1 bb = Inr w1 \<and> pixel_window src2 bb = Inr w2 \<and>
           assets item (bands ! k) = Some a \<and> sign env (href a) = Inr signed \<and>
           rasterio_open env signed = Inr bsrc \<and>
           last_axis_item preview1 k = read bsrc 1 w1 (256, 256) \<and>
           last_axis_item preview2 k = read bsrc 1 w2 (256, 256) \<and>
           (w1 = w2 \<longrightarrow> preview1 = preview2)"
proof -
  from assms(1) obtain s1 src1 w1 arrs1 where
    1: "sign env href1 = Inr s1" "rasterio_open env s1 = Inr src1" "t1 = transform src1"
      "pixel_window src1 bb = Inr w1"
    and l1: "list_all2 (\<lambda>band arr. band_arr env item w1 band = Inr arr) bands arrs1"
    and n1: "np_stack arrs1 = Inr preview1"
    unfolding read_band_Inr_iff by blast
  from assms(2) obtain s2 src2 w2 arrs2 where
    2: "sign env href2 = Inr s2" "rasterio_open env s2 = Inr src2" "t2 = transform src2"
      "pixel_window src2 bb = Inr w2"
    and l2: "list_all2 (\<lambda>band arr. band_arr env item w2 band = Inr arr) bands arrs2"
    and n2: "np_stack arrs2 = Inr preview2"
    unfolding read_band_Inr_iff by blast
  from l1 l2 assms(3) have len: "k < length arrs1" "k < length arrs2"
    and b1: "band_arr env item w1 (bands ! k) = Inr (arrs1 ! k)"
    and b2: "band_arr env item w2 (bands ! k) = Inr (arrs2 ! k)"
    by (simp_all add: list_all2_conv_all_nth)
  from b1 obtain a signed bsrc where
    a: "assets item (bands ! k) = Some a" "sign env (href a) = Inr signed"
      "rasterio_open env signed = Inr bsrc"
    by (auto simp: band_arr_def split: option.splits sum.splits)
  with b1 b2 have "read bsrc 1 w1 (256, 256) = Inr (arrs1 ! k)"
    and "read bsrc 1 w2 (256, 256) = Inr (arrs2 ! k)"
    by (simp_all add: band_arr_def)
  with last_axis_item_np_stack[OF n1 len(1)] last_axis_item_np_stack[OF n2 len(2)]
  have r: "last_axis_item preview1 k = read bsrc 1 w1 (256, 256)"
    "last_axis_item preview2 k = read bsrc 1 w2 (256, 256)"
    by simp_all
  have "preview1 = preview2" if "w1 = w2"
  proof -
    from l1 l2 that have "arrs1 = arrs2" by (auto dest: band_arrs_unique)
    with n1 n2 show ?thesis by simp
  qed
  with 1 2 a r show ?thesis by auto
qed

text \<open>
  Band B03 of the example scene, once with the asset of B04 as \<^verbatim>\<open>asset_href\<close> and once
  with that of B08: both calls read the raster of B03, whose pixels are all 3.
\<close>

theorem read_band_reads_item_assets_witness:
  "last_axis_item
     (fst (projr (read_band example_remote example_item ''B04.tif'' example_bbox [''B03''])))
     0 = read (example_tile 3) 1 \<lparr>col_off = 2, row_off = 11, width = 0, height = 0\<rparr> (256, 256)
   \<and> last_axis_item
     (fst (projr (read_band example_remote example_item ''B08.tif'' example_bbox [''B03''])))
     0 = read (example_tile 3) 1 \<lparr>col_off = 2, row_off = 11, width = 0, height = 0\<rparr> (256, 256)"
proof -
  define r1 where "r1 = read_band example_remote example_item ''B04.tif'' example_bbox [''B03'']"
  define r2 where "r2 = read_band example_remote example_item ''B08.tif'' example_bbox [''B03'']"
  have "\<not> isl r1" and "\<not> isl r2"
    by (simp_all add: r1_def r2_def read_band_def example_sign example_open example_window
        example_band_arr np_stack_def)
  then have ok1: "read_band example_remote example_item ''B04.tif'' example_bbox [''B03'']
      = Inr (fst (projr r1), snd (projr r1))"
    and ok2: "read_band example_remote example_item ''B08.tif'' example_bbox [''B03'']
      = Inr (fst (projr r2), snd (projr r2))"
    by (simp_all add: r1_def r2_def)
  from read_band_reads_item_assets[OF ok1 ok2, of 0] show ?thesis
    by (auto simp: r1_def r2_def example_sign example_open example_window example_assets)
qed

subsection \<open>Display normalization\<close>

text \<open>
  C4, as the code has it. \<^verbatim>\<open>normalize\<close> returns an array of the input's shape, and never
  raises. Each element is the input element cast to float32, clipped to the range from 0
  to 3000 and divided by 3000 in float32. An element that is not NaN, whatever its size
  or sign, becomes a float between 0 and 1: it is 1 for every input of 3000 or more, the
  infinite one too, and 0 for every input of 0 or less, and for an input \<open>x\<close> in between
  it is the float32 nearest to a 3000th of the float32 nearest to \<open>x\<close>, which is \<open>x\<close> itself
  when \<open>x\<close> is an integer. A NaN stays NaN.
\<close>

theorem normalize_range:
  "shape (normalize arr) = shape arr
   \<and> elem (normalize arr) idx = true_divide (clip (to_float32 (elem arr idx)) 0 3000) 3000
   \<and> (elem arr idx \<noteq> NaN \<longrightarrow>
        (\<exists>y. elem (normalize arr) idx = Finite y \<and> 0 \<le> y \<and> y \<le> 1))
   \<and> (elem arr idx = NaN \<longrightarrow> elem (normalize arr) idx = NaN)
   \<and> (number_le (Finite 3000) (elem arr idx) \<longrightarrow> elem (normalize arr) idx = Finite 1)
   \<and> (number_le (elem arr idx) (Finite 0) \<longrightarrow> elem (normalize arr) idx = Finite 0)
   \<and> (elem arr idx = Finite x \<and> 0 \<le> x \<and> x \<le> 3000 \<longrightarrow>
        elem (normalize arr) idx = float32 (float32_nearest x / 3000))
   \<and> (elem arr idx = Finite (of_int k) \<and> 0 \<le> k \<and> k \<le> 3000 \<longrightarrow>
        elem (normalize arr) idx = float32 (of_int k / 3000))"
proof (intro conjI impI)
  show "shape (normalize arr) = shape arr" by (rule normalize_shape)
  show "elem (normalize arr) idx = true_divide (clip (to_float32 (elem arr idx)) 0 3000) 3000"
    by (rule normalize_elem)
  show "\<exists>y. elem (normalize arr) idx = Finite y \<and> 0 \<le> y \<and> y \<le> 1" if "elem arr idx \<noteq> NaN"
    using that by (rule normalize_elem_range)
  show "elem (normalize arr) idx = NaN" if "elem arr idx = NaN"
    using that by (rule normalize_elem_nan)
  show "elem (normalize arr) idx = Finite 1" if "number_le (Finite 3000) (elem arr idx)"
    using that by (rule normalize_elem_saturates)
  show "elem (normalize arr) idx = Finite 0" if "number_le (elem arr idx) (Finite 0)"
    using that by (rule normalize_elem_clips)
  show "elem (normalize arr) idx = float32 (float32_nearest x / 3000)"
    if "elem arr idx = Finite x \<and> 0 \<le> x \<and> x \<le> 3000"
    using that by (simp add: normalize_elem_between)
  show "elem (normalize arr) idx = float32 (of_int k / 3000)"
    if "elem arr idx = Finite (of_int k) \<and> 0 \<le> k \<and> k \<le> 3000"
    using that by (simp add: normalize_elem_of_int)
qed

text \<open>
  The pixels -5, 0, 1500, 70000, plus infinity and minus infinity become 0, 0, 1/2, 1, 1
  and 0.
\<close>

theorem normalize_range_witness:
  "elem (normalize example_pixels) [0] = Finite 0
   \<and> elem (normalize example_pixels) [1] = Finite 0
   \<and> elem (normalize example_pixels) [2] = Finite (1 / 2)
   \<and> elem (normalize example_pixels) [3] = Finite 1
   \<and> elem (normalize example_pixels) [4] = Finite 1
   \<and> elem (normalize example_pixels) [5] = Finite 0"
proof -
  have e: "elem example_pixels [0] = Finite (- 5)" "elem example_pixels [1] = Finite 0"
    "elem example_pixels [2] = Finite (of_int 1500)" "elem example_pixels [3] = Finite 70000"
    "elem example_pixels [4] = PosInf" "elem example_pixels [5] = NegInf"
    by (simp_all add: example_pixels_def)
  have "number_le (elem example_pixels [0]) (Finite 0) \<longrightarrow>
        elem (normalize example_pixels) [0] = Finite 0"
    using normalize_range[of example_pixels "[0]"] by blast
  then have 0: "elem (normalize example_pixels) [0] = Finite 0" using e by simp
  have "number_le (elem example_pixels [1]) (Finite 0) \<longrightarrow>
        elem (normalize example_pixels) [1] = Finite 0"
    using normalize_range[of example_pixels "[1]"] by blast
  then have 1: "elem (normalize example_pixels) [1] = Finite 0" using e by simp
  have "elem example_pixels [2] = Finite (of_int 1500) \<and> (0::int) \<le> 1500 \<and> (1500::int) \<le> 3000
        \<longrightarrow> elem (normalize example_pixels) [2] = float32 (of_int 1500 / 3000)"
    using normalize_range[of example_pixels "[2]" _ 1500] by blast
  then have "elem (normalize example_pixels) [2] = float32 (1 / 2)" using e by simp
  also have "float32 (1 / 2) = Finite (1 / 2)"
    by (simp add: float32_def float32_nearest_def float32_pos_def float32_exponent_def
        round_half_even_def compute_bitlen)
  finally have 2: "elem (normalize example_pixels) [2] = Finite (1 / 2)" .
  have "number_le (Finite 3000) (elem example_pixels [3]) \<longrightarrow>
        elem (normalize example_pixels) [3] = Finite 1"
    using normalize_range[of example_pixels "[3]"] by blast
  then have 3: "elem (normalize example_pixels) [3] = Finite 1" using e by simp
  have "number_le (Finite 3000) (elem example_pixels [4]) \<longrightarrow>
        elem (normalize example_pixels) [4] = Finite 1"
    using normalize_range[of example_pixels "[4]"] by blast
  then have 4: "elem (normalize example_pixels) [4] = Finite 1" using e by simp
  have "number_le (elem example_pixels [5]) (Finite 0) \<longrightarrow>
        elem (normalize example_pixels) [5] = Finite 0"
    using normalize_range[of example_pixels "[5]"] by blast
  then have 5: "elem (normalize example_pixels) [5] = Finite 0" using e by simp
  from 0 1 2 3 4 5 show ?thesis by simp
qed

text \<open>
  C4 as stated fails: the first element of the example array is NaN, and so is the first
  element of its \<^verbatim>\<open>normalize\<close>, which is not between 0 and 1.
\<close>

theorem normalize_nan_counterexample:
  "elem example_nan [0] = NaN
   \<and> elem (normalize example_nan) [0] = NaN
   \<and> \<not> (number_le (Finite 0) (elem (normalize example_nan) [0])
        \<and> number_le (elem (normalize example_nan) [0]) (Finite 1))"
  by (simp add: normalize_def np_divide_def np_clip_def astype_float32_def example_nan_def
      to_float32_def clip_def true_divide_def)

text \<open>
  C8. For every array that \<^verbatim>\<open>read_band\<close> returns, the last axis is as long as \<^verbatim>\<open>bands\<close>
  and the expression for \<^verbatim>\<open>img_rgb\<close> does not fail: with fewer than 3 bands it is
  \<^verbatim>\<open>normalize\<close> of the first band alone, an array with one axis less; with 3 or more
  bands it is \<^verbatim>\<open>normalize\<close> of the first three bands.
\<close>

theorem img_rgb_of_read_band:
  assumes "read_band env item asset_href bb bands = Inr (preview, t)"
  shows "last (shape preview) = length bands
       \<and> (last (shape preview) < 3 \<longrightarrow>
           (\<exists>first. last_axis_item preview 0 = Inr first \<and>
              shape first = butlast (shape preview) \<and>
              img_rgb preview = Inr (normalize first)))
       \<and> (3 \<le> last (shape preview) \<longrightarrow>
           (\<exists>rgb. last_axis_take preview 3 = Inr rgb \<and>
              shape rgb = butlast (shape preview) @ [3] \<and>
              img_rgb preview = Inr (normalize rgb)))"
proof -
  from read_band_shape[OF assms]
  have ne: "bands \<noteq> []" and sh: "shape preview \<noteq> []"
    and la: "last (shape preview) = length bands"
    by simp_all
  from ne have pos: "0 < length bands" by simp
  show ?thesis
    using sh la pos
    by (auto simp: img_rgb_def last_axis_item_def last_axis_take_def plane_of_def)
qed

text \<open>Two bands, B08 and B04: the image is the normalized B08 plane alone.\<close>

theorem img_rgb_of_read_band_witness:
  "img_rgb (fst (projr (read_band example_numeric_remote example_item ''B04.tif'' example_bbox
                          [''B08'', ''B04''])))
     = Inr (normalize \<lparr>shape = [256, 256], elem = (\<lambda>idx. Finite 8)\<rparr>)"
proof -
  define r where
    "r = read_band example_numeric_remote example_item ''B04.tif'' example_bbox
           [''B08'', ''B04'']"
  have "\<not> isl r"
    by (simp add: r_def read_band_def example_numeric_sign example_numeric_open example_window
        example_numeric_band_arr np_stack_def)
  then have ok: "read_band example_numeric_remote example_item ''B04.tif'' example_bbox
        [''B08'', ''B04'']
      = Inr (fst (projr r), snd (projr r))"
    by (simp add: r_def)
  have first: "last_axis_item (fst (projr r)) 0
      = Inr \<lparr>shape = [256, 256], elem = (\<lambda>idx. Finite 8)\<rparr>"
    by (simp add: r_def read_band_def example_numeric_sign example_numeric_open example_window
        example_numeric_band_arr np_stack_def last_axis_item_def plane_of_def)
  have two: "length [''B08'', ''B04''] < 3" by simp
  from img_rgb_of_read_band[OF ok] first two show ?thesis
    by (auto simp: r_def)
qed

subsection \<open>Export\<close>

text \<open>
  C9. For a stack of \<open>h\<close> rows, \<open>w\<close> columns and \<open>n\<close> bands, none of them zero, and any
  transform, the export succeeds. The file is a GTiff of height \<open>h\<close>, width \<open>w\<close> and \<open>n\<close>
  bands in EPSG:4326 with the given transform, its band \<open>k + 1\<close> is \<^verbatim>\<open>preview[..., k]\<close>, and
  reading it back gives the given transform and an array equal to the stack.
\<close>

theorem export_round_trip:
  assumes "shape preview = [h, w, n]" and "0 < h" and "0 < w" and "0 < n"
  shows "\<exists>dst reread. export_geotiff preview t = Inr dst
     \<and> dst_driver dst = ''GTiff'' \<and> dst_height dst = h \<and> dst_width dst = w
     \<and> dst_count dst = n \<and> dst_crs dst = ''EPSG:4326'' \<and> dst_transform dst = t
     \<and> length (dst_bands dst) = n
     \<and> (\<forall>k<n. last_axis_item preview k = Inr (dst_bands dst ! k))
     \<and> reopen dst = Inr (reread, t) \<and> array_equal reread preview"
proof -
  define dst0 :: "('a, 'b) geotiff" where
    "dst0 = \<lparr>dst_driver = ''GTiff'', dst_height = h, dst_width = w, dst_count = n,
                dst_crs = ''EPSG:4326'', dst_transform = t,
                dst_bands = replicate n \<lparr>shape = [h, w], elem = (\<lambda>idx. 0)\<rparr>\<rparr>"
  define dst where "dst = dst0\<lparr>dst_bands := map (plane_of preview) [0..<n]\<rparr>"
  have created: "rasterio_open_w ''GTiff'' h w n ''EPSG:4326'' t = Inr dst0"
    using assms by (simp add: rasterio_open_w_def dst0_def)
  have "write_bands preview [0..<n] dst0 =
          Inr (dst0\<lparr>dst_bands := take 0 (dst_bands dst0) @ map (plane_of preview) [0..<n]\<rparr>)"
    using assms(1) by (intro write_bands_upt) (simp_all add: dst0_def)
  then have wr: "write_bands preview [0..<n] dst0 = Inr dst"
    by (simp add: dst_def)
  have ex: "export_geotiff preview t = Inr dst"
    using assms(1) created wr by (simp add: export_geotiff_def shape_at_def)
  from np_stack_planes[OF assms(1,4)] obtain reread where
    rr: "np_stack (map (plane_of preview) [0..<n]) = Inr reread" "array_equal reread preview"
    by blast
  then have re: "reopen dst = Inr (reread, t)" by (simp add: reopen_def dst_def dst0_def)
  have "\<forall>k<n. last_axis_item preview k = Inr (dst_bands dst ! k)"
    using assms(1) by (simp add: last_axis_item_plane dst_def)
  with ex re rr(2) show ?thesis by (simp add: dst_def dst0_def)
qed

text \<open>The stack of one row, two columns and two bands, with the example tile's transform.\<close>

theorem export_round_trip_witness:
  "shape example_stack = [1, 2, 2]
   \<and> (\<exists>dst reread. export_geotiff example_stack (transform (example_tile 4)) = Inr dst
        \<and> dst_count dst = 2 \<and> dst_crs dst = ''EPSG:4326''
        \<and> reopen dst = Inr (reread, transform (example_tile 4))
        \<and> array_equal reread example_stack)"
proof -
  have s: "shape example_stack = [1, 2, 2]" by (simp add: example_stack_def)
  from export_round_trip[OF s, of "transform (example_tile 4)"] s show ?thesis
    by auto
qed

end
